theory Spec2Isabelle
  imports Main "HOL-Library.Word" "HOL-Library.AList"
begin

unbundle bit_operations_syntax

section \<open>A V4L2 capture device session (\<^verbatim>\<open>v4l2_camera_device.cpp\<close>, \<^verbatim>\<open>v4l2_camera.cpp\<close>)\<close>

text \<open>
  The class \<^verbatim>\<open>V4l2CameraDevice\<close> talks to a video device through \<^verbatim>\<open>open\<close>,
  \<^verbatim>\<open>ioctl\<close>, \<^verbatim>\<open>mmap\<close> and \<^verbatim>\<open>munmap\<close>. The embedding keeps the object's fields in a
  record and makes every system call explicit: each call is appended to the list
  \<open>syscalls\<close> of the object, and the answer of the kernel is read from a record of
  functions that see the calls issued so far (so the device may answer the same
  request differently at different times). Undefined behaviour of the C++ source and
  loops that need not end are results of their own.
\<close>

subsection \<open>Machine types and constants of \<^verbatim>\<open>linux/videodev2.h\<close>\<close>

type_synonym u8 = "8 word"
type_synonym u32 = "32 word"
type_synonym s32 = "32 word"
type_synonym s64 = "64 word"
type_synonym u64 = "64 word"
type_synonym addr = "64 word"

text \<open>\<^verbatim>\<open>MAP_FAILED\<close> is \<^verbatim>\<open>(void *) -1\<close>.\<close>

definition MAP_FAILED :: addr where
  "MAP_FAILED = - 1"

definition V4L2_CTRL_FLAG_DISABLED :: u32 where
  "V4L2_CTRL_FLAG_DISABLED = 0x0001"

definition V4L2_CTRL_FLAG_NEXT_CTRL :: u32 where
  "V4L2_CTRL_FLAG_NEXT_CTRL = 0x80000000"

text \<open>
  \<^verbatim>\<open>V4L2_CID_USER_CLASS\<close> is \<^verbatim>\<open>(V4L2_CTRL_CLASS_USER | 1)\<close>, with
  \<^verbatim>\<open>V4L2_CTRL_CLASS_USER\<close> \<open>= 0x00980000\<close>.
\<close>

definition V4L2_CTRL_CLASS_USER :: u32 where
  "V4L2_CTRL_CLASS_USER = 0x00980000"

definition V4L2_CID_USER_CLASS :: u32 where
  "V4L2_CID_USER_CLASS = V4L2_CTRL_CLASS_USER OR 1"

text \<open>
  Modelled from the spec: the enumeration \<^verbatim>\<open>ControlType\<close> is declared in a header that
  is not among the source files. The source casts the type the kernel reports to it
  (line 333), so its enumerated-choice case \<^verbatim>\<open>ControlType::MENU\<close> has the value of
  \<^verbatim>\<open>V4L2_CTRL_TYPE_MENU\<close>.
\<close>

definition ControlType_MENU :: u32 where
  "ControlType_MENU = 3"

text \<open>
  \<^verbatim>\<open>v4l2_fourcc(a, b, c, d)\<close> is
  \<^verbatim>\<open>(__u32)(a) | ((__u32)(b) << 8) | ((__u32)(c) << 16) | ((__u32)(d) << 24)\<close>.
  The source applies it to elements of a \<^verbatim>\<open>std::string\<close>, that is to plain \<^verbatim>\<open>char\<close>:
  the conversion to \<^verbatim>\<open>__u32\<close> extends the sign where plain \<^verbatim>\<open>char\<close> is signed
  (x86-64) and pads with zeros where it is unsigned (ARM). The first argument says
  which of the two the target does.
\<close>

definition char_to_u32 :: "bool \<Rightarrow> char \<Rightarrow> u32" where
  "char_to_u32 char_signed c =
     (if char_signed then scast (of_char c :: u8) else ucast (of_char c :: u8))"

definition v4l2_fourcc :: "bool \<Rightarrow> char \<Rightarrow> char \<Rightarrow> char \<Rightarrow> char \<Rightarrow> u32" where
  "v4l2_fourcc char_signed a b c d =
     char_to_u32 char_signed a OR push_bit 8 (char_to_u32 char_signed b) OR
     push_bit 16 (char_to_u32 char_signed c) OR push_bit 24 (char_to_u32 char_signed d)"

text \<open>The four characters of \<^verbatim>\<open>V4L2_PIX_FMT_YUYV\<close> are ASCII: the value is \<open>0x56595559\<close> on every target.\<close>

definition V4L2_PIX_FMT_YUYV :: u32 where
  "V4L2_PIX_FMT_YUYV = v4l2_fourcc False CHR ''Y'' CHR ''U'' CHR ''Y'' CHR ''V''"

text \<open>\<^verbatim>\<open>sensor_msgs::image_encodings::YUV422_YUY2\<close>.\<close>

definition YUV422_YUY2 :: string where
  "YUV422_YUY2 = ''yuv422_yuy2''"

subsection \<open>Kernel structures (the fields the source reads or writes)\<close>

record v4l2_capability =
  cap_driver :: string
  cap_card :: string
  cap_bus_info :: string
  cap_version :: u32
  cap_capabilities :: u32

record v4l2_pix_format =
  pix_width :: u32
  pix_height :: u32
  pix_pixelformat :: u32
  pix_bytesperline :: u32
  pix_sizeimage :: u32

record v4l2_fmtdesc =
  fmt_description :: string
  fmt_pixelformat :: u32

record v4l2_queryctrl =
  qc_id :: u32
  qc_type :: u32
  qc_name :: string
  qc_minimum :: s32
  qc_maximum :: s32
  qc_default_value :: s32
  qc_flags :: u32

subsection \<open>System calls and the kernel\<close>

text \<open>
  One constructor per call the source makes, with the request fields it fills in.
  \<open>MemRead a n\<close> is the \<^verbatim>\<open>std::copy\<close> of \<open>n\<close> bytes out of the mapped memory at \<open>a\<close>.
\<close>

datatype syscall =
    SysOpen string
  | VIDIOC_QUERYCAP
  | VIDIOC_G_FMT
  | VIDIOC_S_FMT u32 u32 u32
  | VIDIOC_ENUM_FMT u32
  | VIDIOC_QUERYCTRL u32
  | VIDIOC_QUERYMENU u32 u32
  | VIDIOC_G_CTRL u32
  | VIDIOC_S_CTRL u32 s32
  | VIDIOC_REQBUFS u32
  | VIDIOC_QUERYBUF u32
  | VIDIOC_QBUF u32
  | VIDIOC_DQBUF
  | VIDIOC_STREAMON
  | VIDIOC_STREAMOFF
  | Mmap u32 u32
  | Munmap addr u64
  | MemRead addr nat

text \<open>
  The kernel and the driver, as the source sees them: for each call, the answer given
  the calls issued before it. An \<^verbatim>\<open>ioctl\<close> that returns \<open>-1\<close> answers \<open>None\<close> (or
  \<open>False\<close>) and leaves the structure passed to it as it was; one that succeeds
  answers with the fields the kernel writes back. \<open>k_mem\<close> is the content of the
  memory shared with the device.
\<close>

record kernel =
  k_open :: "syscall list \<Rightarrow> string \<Rightarrow> int"
  k_querycap :: "syscall list \<Rightarrow> v4l2_capability option"
  k_g_fmt :: "syscall list \<Rightarrow> v4l2_pix_format option"
  k_s_fmt :: "syscall list \<Rightarrow> u32 \<Rightarrow> u32 \<Rightarrow> u32 \<Rightarrow> v4l2_pix_format option"
  k_enum_fmt :: "syscall list \<Rightarrow> u32 \<Rightarrow> v4l2_fmtdesc option"
  k_queryctrl :: "syscall list \<Rightarrow> u32 \<Rightarrow> v4l2_queryctrl option"
  k_querymenu :: "syscall list \<Rightarrow> u32 \<Rightarrow> u32 \<Rightarrow> string option"
  k_g_ctrl :: "syscall list \<Rightarrow> u32 \<Rightarrow> s32 option"
  k_s_ctrl :: "syscall list \<Rightarrow> u32 \<Rightarrow> s32 \<Rightarrow> bool"
  k_reqbufs :: "syscall list \<Rightarrow> u32 \<Rightarrow> u32 option"
  k_querybuf :: "syscall list \<Rightarrow> u32 \<Rightarrow> (u32 \<times> u32) option"
  k_qbuf :: "syscall list \<Rightarrow> u32 \<Rightarrow> bool"
  k_dqbuf :: "syscall list \<Rightarrow> u32 option"
  k_streamon :: "syscall list \<Rightarrow> bool"
  k_streamoff :: "syscall list \<Rightarrow> bool"
  k_mmap :: "syscall list \<Rightarrow> u32 \<Rightarrow> u32 \<Rightarrow> addr"
  k_mem :: "syscall list \<Rightarrow> addr \<Rightarrow> u8"

subsection \<open>The object\<close>

text \<open>
  Modelled from the spec: the structures \<^verbatim>\<open>PixelFormat\<close>, \<^verbatim>\<open>ImageFormat\<close>, \<^verbatim>\<open>Control\<close>
  and \<^verbatim>\<open>Buffer\<close> are declared in headers that are not among the two source files.
  Their fields are those of the data model of the specification (section 3), under the
  names the source files use for them. \<^verbatim>\<open>Image\<close> is the message type of the consumer,
  with the fields \<^verbatim>\<open>capture()\<close> fills in.
\<close>

record PixelFormat =
  width :: u32
  height :: u32
  pixelFormat :: u32
  bytesPerLine :: u32
  imageByteSize :: u32

text \<open>
  Modelled from the spec: the constructor \<^verbatim>\<open>PixelFormat{fmt.pix}\<close>, declared with the
  structure, takes each field from the kernel's structure.
\<close>

definition PixelFormat_of :: "v4l2_pix_format \<Rightarrow> PixelFormat" where
  "PixelFormat_of p =
     \<lparr>width = pix_width p, height = pix_height p, pixelFormat = pix_pixelformat p,
      bytesPerLine = pix_bytesperline p, imageByteSize = pix_sizeimage p\<rparr>"

record ImageFormat =
  if_description :: string
  if_pixelFormat :: u32

record Control =
  ctrl_id :: u32
  ctrl_name :: string
  ctrl_type :: u32
  ctrl_minimum :: s32
  ctrl_maximum :: s32
  ctrl_defaultValue :: s32
  ctrl_menuItems :: "(int \<times> string) list"

record Buffer =
  buf_index :: u32
  buf_start :: addr
  buf_length :: u64

record Image =
  img_width :: u32
  img_height :: u32
  img_step :: u32
  img_encoding :: string
  img_data :: "u8 list"

record V4l2CameraDevice =
  device :: string
  fd :: int
  capabilities :: v4l2_capability
  cur_data_format :: PixelFormat
  image_formats :: "ImageFormat list"
  controls :: "Control list"
  buffers :: "Buffer list"
  syscalls :: "syscall list"

text \<open>Issuing a call: it is appended to the calls made so far.\<close>

definition issue :: "syscall \<Rightarrow> V4l2CameraDevice \<Rightarrow> V4l2CameraDevice" where
  "issue c s = s\<lparr>syscalls := syscalls s @ [c]\<rparr>"

subsection \<open>Results\<close>

datatype undefined_behaviour =
    EndIteratorDereference
  | VectorIndexOutOfRange
  | ReadOutsideMapping
  | SignedOverflow
  | WriteBeyondObject

text \<open>
  \<open>Returns x\<close>: the call returns \<open>x\<close>. \<open>Undefined u\<close>: the C++ source has undefined
  behaviour there. \<open>OutOfFuel\<close>: a loop has not ended within the given number of
  iterations.
\<close>

datatype 'a outcome = Returns 'a | Undefined undefined_behaviour | OutOfFuel

subsection \<open>\<^verbatim>\<open>V4l2CameraDevice::capture\<close>\<close>

text \<open>
  The image object built at lines 209--219: sized by the current format, with the
  encoding tag set for YUYV only.
\<close>

definition new_image :: "PixelFormat \<Rightarrow> u8 list \<Rightarrow> Image" where
  "new_image f bytes =
     \<lparr>img_width = width f, img_height = height f, img_step = bytesPerLine f,
      img_encoding = (if pixelFormat f = V4L2_PIX_FMT_YUYV then YUV422_YUY2 else []),
      img_data = bytes\<rparr>"

text \<open>
  \<^verbatim>\<open>std::copy(buffer.start, buffer.start + n, ...)\<close>: the \<open>n\<close> bytes at \<open>a\<close>, as the
  memory holds them after the calls \<open>cs\<close>.
\<close>

definition read_bytes :: "kernel \<Rightarrow> syscall list \<Rightarrow> addr \<Rightarrow> nat \<Rightarrow> u8 list" where
  "read_bytes k cs a n = map (\<lambda>i. k_mem k cs (a + of_nat i)) [0..<n]"

text \<open>
  \<^verbatim>\<open>capture()\<close> returns \<^verbatim>\<open>nullptr\<close> (\<open>None\<close>) when dequeueing or requeueing fails.
  \<^verbatim>\<open>buffers_[buf.index]\<close> is unchecked, and the copy reads \<^verbatim>\<open>imageByteSize\<close> bytes
  whatever the length of the mapping: both are undefined behaviour out of range.
\<close>

definition capture :: "kernel \<Rightarrow> V4l2CameraDevice \<Rightarrow> (Image option \<times> V4l2CameraDevice) outcome" where
  "capture k s =
     (case k_dqbuf k (syscalls s) of
        None \<Rightarrow> Returns (None, issue VIDIOC_DQBUF s)
      | Some idx \<Rightarrow>
          let s1 = issue VIDIOC_DQBUF s in
          if \<not> k_qbuf k (syscalls s1) idx then Returns (None, issue (VIDIOC_QBUF idx) s1)
          else
            let s2 = issue (VIDIOC_QBUF idx) s1;
                n = unat (imageByteSize (cur_data_format s2))
            in if length (buffers s2) \<le> unat idx then Undefined VectorIndexOutOfRange
               else
                 let buffer = buffers s2 ! unat idx in
                 if 0 < n \<and> (buf_start buffer = MAP_FAILED \<or> unat (buf_length buffer) < n)
                 then Undefined ReadOutsideMapping
                 else
                   Returns
                     (Some (new_image (cur_data_format s2)
                              (read_bytes k (syscalls s2) (buf_start buffer) n)),
                      issue (MemRead (buf_start buffer) n) s2))"

subsection \<open>\<^verbatim>\<open>V4l2CameraDevice::initMemoryMapping\<close>, \<^verbatim>\<open>start\<close> and \<^verbatim>\<open>stop\<close>\<close>

text \<open>
  The loop of lines 364--387 over the buffer numbers. The result of
  \<^verbatim>\<open>VIDIOC_QUERYBUF\<close> is not checked: when it fails, length and offset are the zeros of
  the initialised structure. The kernel leaves \<^verbatim>\<open>buf.index\<close> as passed.
\<close>

fun map_buffers :: "kernel \<Rightarrow> nat list \<Rightarrow> V4l2CameraDevice \<Rightarrow> bool \<times> V4l2CameraDevice" where
  "map_buffers k [] s = (True, s)"
| "map_buffers k (i # rest) s =
     (let r = (case k_querybuf k (syscalls s) (of_nat i) of None \<Rightarrow> (0, 0) | Some lo \<Rightarrow> lo);
          s1 = issue (VIDIOC_QUERYBUF (of_nat i)) s;
          a = k_mmap k (syscalls s1) (fst r) (snd r);
          s2 = issue (Mmap (fst r) (snd r)) s1;
          s3 = s2\<lparr>buffers := (buffers s2)
                 [i := \<lparr>buf_index = of_nat i, buf_start = a, buf_length = ucast (fst r)\<rparr>]\<rparr>
      in if a = MAP_FAILED then (False, s3) else map_buffers k rest s3)"

text \<open>
  The result of \<^verbatim>\<open>VIDIOC_REQBUFS\<close> is not checked either: when it fails, \<^verbatim>\<open>req.count\<close>
  is still the 4 that was asked for (\<open>req_count\<close> is its value after the call).
  \<^verbatim>\<open>std::vector<Buffer>(req.count)\<close> holds value-initialised buffers.
\<close>

definition req_count :: "kernel \<Rightarrow> V4l2CameraDevice \<Rightarrow> u32" where
  "req_count k s = (case k_reqbufs k (syscalls s) 4 of None \<Rightarrow> 4 | Some c \<Rightarrow> c)"

definition initMemoryMapping :: "kernel \<Rightarrow> V4l2CameraDevice \<Rightarrow> bool \<times> V4l2CameraDevice" where
  "initMemoryMapping k s =
     (let count = req_count k s;
          s1 = issue (VIDIOC_REQBUFS 4) s
      in if count < 2 then (False, s1)
         else map_buffers k [0..<unat count]
                (s1\<lparr>buffers := replicate (unat count)
                                  \<lparr>buf_index = 0, buf_start = 0, buf_length = 0\<rparr>\<rparr>))"

text \<open>The loop of lines 124--136: queue every buffer, stop at the first failure.\<close>

fun queue_buffers :: "kernel \<Rightarrow> Buffer list \<Rightarrow> V4l2CameraDevice \<Rightarrow> bool \<times> V4l2CameraDevice" where
  "queue_buffers k [] s = (True, s)"
| "queue_buffers k (b # rest) s =
     (if \<not> k_qbuf k (syscalls s) (buf_index b) then (False, issue (VIDIOC_QBUF (buf_index b)) s)
      else queue_buffers k rest (issue (VIDIOC_QBUF (buf_index b)) s))"

definition start :: "kernel \<Rightarrow> V4l2CameraDevice \<Rightarrow> bool \<times> V4l2CameraDevice" where
  "start k s =
     (case initMemoryMapping k s of
        (False, s1) \<Rightarrow> (False, s1)
      | (True, s1) \<Rightarrow>
          (case queue_buffers k (buffers s1) s1 of
             (False, s2) \<Rightarrow> (False, s2)
           | (True, s2) \<Rightarrow>
               if \<not> k_streamon k (syscalls s2) then (False, issue VIDIOC_STREAMON s2)
               else (True, issue VIDIOC_STREAMON s2)))"

text \<open>The loop of lines 161--163: one \<^verbatim>\<open>munmap\<close> per buffer, results not checked.\<close>

fun unmap_buffers :: "Buffer list \<Rightarrow> V4l2CameraDevice \<Rightarrow> V4l2CameraDevice" where
  "unmap_buffers [] s = s"
| "unmap_buffers (b # rest) s = unmap_buffers rest (issue (Munmap (buf_start b) (buf_length b)) s)"

definition stop :: "kernel \<Rightarrow> V4l2CameraDevice \<Rightarrow> bool \<times> V4l2CameraDevice" where
  "stop k s =
     (if \<not> k_streamoff k (syscalls s) then (False, issue VIDIOC_STREAMOFF s)
      else
        let s1 = issue VIDIOC_STREAMOFF s;
            s2 = unmap_buffers (buffers s1) s1;
            s3 = s2\<lparr>buffers := []\<rparr>
        in (True, issue (VIDIOC_REQBUFS 0) s3))"

subsection \<open>\<^verbatim>\<open>getControlValue\<close> and \<^verbatim>\<open>setControlValue\<close>\<close>

definition getControlValue :: "kernel \<Rightarrow> u32 \<Rightarrow> V4l2CameraDevice \<Rightarrow> s32 \<times> V4l2CameraDevice" where
  "getControlValue k i s =
     (case k_g_ctrl k (syscalls s) i of
        None \<Rightarrow> (0, issue (VIDIOC_G_CTRL i) s)
      | Some v \<Rightarrow> (v, issue (VIDIOC_G_CTRL i) s))"

text \<open>
  The sizes of the two kernel structures \<^verbatim>\<open>setControlValue\<close> confuses:
  \<^verbatim>\<open>v4l2_control\<close> is \<^verbatim>\<open>{__u32 id; __s32 value;}\<close>, and \<^verbatim>\<open>v4l2_queryctrl\<close> is
  \<^verbatim>\<open>{__u32 id; __u32 type; __u8 name[32]; __s32 minimum, maximum, step, default_value;
  __u32 flags; __u32 reserved[2];}\<close>.
\<close>

definition sizeof_v4l2_control :: nat where
  "sizeof_v4l2_control = 8"

definition sizeof_v4l2_queryctrl :: nat where
  "sizeof_v4l2_queryctrl = 68"

text \<open>
  Lines 254--262, after the query: \<^verbatim>\<open>ctrl.value\<close> is assigned from the argument and the
  set request is made with the \<^verbatim>\<open>id\<close> the kernel wrote back. \<open>control\<close> is the result
  of the lookup of line 241, \<open>None\<close> for the end iterator: the error message of line 257
  reads \<^verbatim>\<open>control->name\<close>.
\<close>

definition set_request ::
  "kernel \<Rightarrow> u32 \<Rightarrow> s32 \<Rightarrow> Control option \<Rightarrow> V4l2CameraDevice
     \<Rightarrow> (bool \<times> V4l2CameraDevice) outcome" where
  "set_request k j v control s =
     (if \<not> k_s_ctrl k (syscalls s) j v then
        (case control of
           None \<Rightarrow> Undefined EndIteratorDereference
         | Some c \<Rightarrow> Returns (False, issue (VIDIOC_S_CTRL j v) s))
      else Returns (True, issue (VIDIOC_S_CTRL j v) s))"

text \<open>
  \<^verbatim>\<open>std::find_if\<close> over \<^verbatim>\<open>controls_\<close> is \<open>find\<close>: \<open>None\<close> is the end iterator, and
  \<^verbatim>\<open>control->name\<close> in the error message of line 250 dereferences it. Lines 245--248
  pass the address of the \<^verbatim>\<open>v4l2_control\<close> \<^verbatim>\<open>ctrl\<close> to \<^verbatim>\<open>VIDIOC_QUERYCTRL\<close>, a request
  that reads and writes a \<^verbatim>\<open>v4l2_queryctrl\<close>: when the query succeeds the kernel copies
  its whole answer to that address, which writes beyond the smaller object. A failed
  query writes nothing back.
\<close>

definition setControlValue ::
  "kernel \<Rightarrow> u32 \<Rightarrow> s32 \<Rightarrow> V4l2CameraDevice \<Rightarrow> (bool \<times> V4l2CameraDevice) outcome" where
  "setControlValue k i v s =
     (let control = find (\<lambda>c. ctrl_id c = i) (controls s) in
      case k_queryctrl k (syscalls s) i of
        None \<Rightarrow>
          (case control of
             None \<Rightarrow> Undefined EndIteratorDereference
           | Some c \<Rightarrow> Returns (False, issue (VIDIOC_QUERYCTRL i) s))
      | Some q \<Rightarrow>
          if sizeof_v4l2_control < sizeof_v4l2_queryctrl then Undefined WriteBeyondObject
          else set_request k (qc_id q) v control (issue (VIDIOC_QUERYCTRL i) s))"

subsection \<open>\<^verbatim>\<open>requestDataFormat\<close>, and its callers in \<^verbatim>\<open>V4L2Camera\<close>\<close>

text \<open>
  The request carries the pixel format, the width and the height; on success the
  object stores what the kernel wrote into the structure.
\<close>

definition requestDataFormat ::
  "kernel \<Rightarrow> PixelFormat \<Rightarrow> V4l2CameraDevice \<Rightarrow> bool \<times> V4l2CameraDevice" where
  "requestDataFormat k format s =
     (case k_s_fmt k (syscalls s) (pixelFormat format) (width format) (height format) of
        None \<Rightarrow>
          (False, issue (VIDIOC_S_FMT (pixelFormat format) (width format) (height format)) s)
      | Some pix \<Rightarrow>
          (True, (issue (VIDIOC_S_FMT (pixelFormat format) (width format) (height format)) s)
                   \<lparr>cur_data_format := PixelFormat_of pix\<rparr>))"

definition requestPixelFormat ::
  "bool \<Rightarrow> kernel \<Rightarrow> string \<Rightarrow> V4l2CameraDevice \<Rightarrow> bool \<times> V4l2CameraDevice" where
  "requestPixelFormat char_signed k fourcc s =
     (if length fourcc \<noteq> 4 then (False, s)
      else
        let code = v4l2_fourcc char_signed (fourcc ! 0) (fourcc ! 1) (fourcc ! 2) (fourcc ! 3);
            dataFormat = cur_data_format s
        in if pixelFormat dataFormat = code then (True, s)
           else requestDataFormat k (dataFormat\<lparr>pixelFormat := code\<rparr>) s)"

text \<open>
  The sizes are \<^verbatim>\<open>int64_t\<close>: the comparison widens the unsigned 32-bit width and
  height, the assignment truncates the requested values to 32 bits.
\<close>

definition requestImageSize ::
  "kernel \<Rightarrow> s64 list \<Rightarrow> V4l2CameraDevice \<Rightarrow> bool \<times> V4l2CameraDevice" where
  "requestImageSize k sz s =
     (if length sz \<noteq> 2 then (False, s)
      else
        let dataFormat = cur_data_format s
        in if ucast (width dataFormat) = sz ! 0 \<and> ucast (height dataFormat) = sz ! 1
           then (True, s)
           else requestDataFormat k
                  (dataFormat\<lparr>width := ucast (sz ! 0), height := ucast (sz ! 1)\<rparr>) s)"

subsection \<open>\<^verbatim>\<open>listImageFormats\<close> and \<^verbatim>\<open>listControls\<close>\<close>

definition ImageFormat_of :: "v4l2_fmtdesc \<Rightarrow> ImageFormat" where
  "ImageFormat_of d = \<lparr>if_description = fmt_description d, if_pixelFormat = fmt_pixelformat d\<rparr>"

text \<open>
  The loop of lines 297--300 ends when the device fails the query; the first argument
  bounds the number of queries.
\<close>

fun listImageFormats_loop ::
  "nat \<Rightarrow> kernel \<Rightarrow> u32 \<Rightarrow> V4l2CameraDevice \<Rightarrow> V4l2CameraDevice outcome" where
  "listImageFormats_loop 0 k i s = OutOfFuel"
| "listImageFormats_loop (Suc n) k i s =
     (case k_enum_fmt k (syscalls s) i of
        None \<Rightarrow> Returns (issue (VIDIOC_ENUM_FMT i) s)
      | Some d \<Rightarrow>
          listImageFormats_loop n k (i + 1)
            ((issue (VIDIOC_ENUM_FMT i) s)\<lparr>image_formats := image_formats s @ [ImageFormat_of d]\<rparr>))"

definition listImageFormats :: "nat \<Rightarrow> kernel \<Rightarrow> V4l2CameraDevice \<Rightarrow> V4l2CameraDevice outcome" where
  "listImageFormats fuel k s = listImageFormats_loop fuel k 0 (s\<lparr>image_formats := []\<rparr>)"

text \<open>
  The loop of lines 322--327 over the menu indices \<open>i\<close> from the minimum to the
  maximum, both \<^verbatim>\<open>__s32\<close>: \<^verbatim>\<open>i++\<close> at the largest \<^verbatim>\<open>__s32\<close> is a signed overflow.
  Items the device does not label are left out of the map.
\<close>

function query_menu ::
  "kernel \<Rightarrow> u32 \<Rightarrow> int \<Rightarrow> int \<Rightarrow> (int \<times> string) list \<Rightarrow> V4l2CameraDevice
     \<Rightarrow> ((int \<times> string) list \<times> V4l2CameraDevice) outcome" where
  "query_menu k c i mx items s =
     (if i \<le> mx then
        (if i = 2147483647 then Undefined SignedOverflow
         else query_menu k c (i + 1) mx
                (case k_querymenu k (syscalls s) c (word_of_int i) of
                   None \<Rightarrow> items
                 | Some label \<Rightarrow> AList.update i label items)
                (issue (VIDIOC_QUERYMENU c (word_of_int i)) s))
      else Returns (items, s))"
  by pat_completeness auto
termination
  by (relation "measure (\<lambda>(k, c, i, mx, items, s). nat (mx + 1 - i))") auto

declare query_menu.simps [simp del]

definition Control_of :: "v4l2_queryctrl \<Rightarrow> (int \<times> string) list \<Rightarrow> Control" where
  "Control_of q items =
     \<lparr>ctrl_id = qc_id q, ctrl_name = qc_name q, ctrl_type = qc_type q,
      ctrl_minimum = qc_minimum q, ctrl_maximum = qc_maximum q,
      ctrl_defaultValue = qc_default_value q, ctrl_menuItems = items\<rparr>"

text \<open>
  The loop of lines 310--343. The structure \<^verbatim>\<open>queryctrl\<close> lives across iterations and
  the kernel overwrites it on success, so the next query is made with the \<^verbatim>\<open>id\<close> the
  kernel wrote: with \<^verbatim>\<open>V4L2_CTRL_FLAG_NEXT_CTRL\<close> added at the end of the body, and as
  it is after the \<^verbatim>\<open>continue\<close> of a disabled control. The first argument bounds the
  number of queries.
\<close>

fun listControls_loop ::
  "nat \<Rightarrow> kernel \<Rightarrow> u32 \<Rightarrow> V4l2CameraDevice \<Rightarrow> V4l2CameraDevice outcome" where
  "listControls_loop 0 k i s = OutOfFuel"
| "listControls_loop (Suc n) k i s =
     (case k_queryctrl k (syscalls s) i of
        None \<Rightarrow> Returns (issue (VIDIOC_QUERYCTRL i) s)
      | Some q \<Rightarrow>
          if qc_flags q AND V4L2_CTRL_FLAG_DISABLED \<noteq> 0
          then listControls_loop n k (qc_id q) (issue (VIDIOC_QUERYCTRL i) s)
          else
            (case (if qc_type q = ControlType_MENU
                   then query_menu k (qc_id q) (sint (qc_minimum q)) (sint (qc_maximum q)) []
                          (issue (VIDIOC_QUERYCTRL i) s)
                   else Returns ([], issue (VIDIOC_QUERYCTRL i) s)) of
               Returns (menuItems, s2) \<Rightarrow>
                 listControls_loop n k (qc_id q OR V4L2_CTRL_FLAG_NEXT_CTRL)
                   (s2\<lparr>controls := controls s2 @ [Control_of q menuItems]\<rparr>)
             | Undefined u \<Rightarrow> Undefined u
             | OutOfFuel \<Rightarrow> OutOfFuel))"

definition listControls :: "nat \<Rightarrow> kernel \<Rightarrow> V4l2CameraDevice \<Rightarrow> V4l2CameraDevice outcome" where
  "listControls fuel k s =
     listControls_loop fuel k (V4L2_CID_USER_CLASS OR V4L2_CTRL_FLAG_NEXT_CTRL) (s\<lparr>controls := []\<rparr>)"

subsection \<open>\<^verbatim>\<open>V4l2CameraDevice::open\<close>\<close>

text \<open>
  The loop of lines 99--111 logs each control with its current value, which it reads
  from the device.
\<close>

fun log_controls :: "kernel \<Rightarrow> Control list \<Rightarrow> V4l2CameraDevice \<Rightarrow> V4l2CameraDevice" where
  "log_controls k [] s = s"
| "log_controls k (c # rest) s = log_controls k rest (snd (getControlValue k (ctrl_id c) s))"

text \<open>
  Lines 54--80. The results of \<^verbatim>\<open>VIDIOC_QUERYCAP\<close> and \<^verbatim>\<open>VIDIOC_G_FMT\<close> are not
  checked. When the first fails \<^verbatim>\<open>capabilities_\<close> stays as it was; when the second
  fails the format is read from the zero-initialised request.
\<close>

definition zero_pix :: v4l2_pix_format where
  "zero_pix =
     \<lparr>pix_width = 0, pix_height = 0, pix_pixelformat = 0, pix_bytesperline = 0, pix_sizeimage = 0\<rparr>"

definition query_device :: "kernel \<Rightarrow> V4l2CameraDevice \<Rightarrow> V4l2CameraDevice" where
  "query_device k s =
     (let s1 = (case k_querycap k (syscalls s) of
                  None \<Rightarrow> issue VIDIOC_QUERYCAP s
                | Some c \<Rightarrow> (issue VIDIOC_QUERYCAP s)\<lparr>capabilities := c\<rparr>)
      in (issue VIDIOC_G_FMT s1)
           \<lparr>cur_data_format :=
              PixelFormat_of (case k_g_fmt k (syscalls s1) of None \<Rightarrow> zero_pix | Some p \<Rightarrow> p)\<rparr>)"

text \<open>
  \<^verbatim>\<open>open()\<close> returns false only when \<^verbatim>\<open>::open\<close> fails. The fuel bounds each of the two
  enumeration loops.
\<close>

definition open_device ::
  "nat \<Rightarrow> kernel \<Rightarrow> V4l2CameraDevice \<Rightarrow> (bool \<times> V4l2CameraDevice) outcome" where
  "open_device fuel k s =
     (let s1 = (issue (SysOpen (device s)) s)\<lparr>fd := k_open k (syscalls s) (device s)\<rparr>
      in if fd s1 < 0 then Returns (False, s1)
         else
           case listImageFormats fuel k (query_device k s1) of
             Returns s4 \<Rightarrow>
               (case listControls fuel k s4 of
                  Returns s5 \<Rightarrow> Returns (True, log_controls k (controls s5) s5)
                | Undefined u \<Rightarrow> Undefined u
                | OutOfFuel \<Rightarrow> OutOfFuel)
           | Undefined u \<Rightarrow> Undefined u
           | OutOfFuel \<Rightarrow> OutOfFuel)"

subsection \<open>Reading the list of calls\<close>

text \<open>The calls that release a mapping.\<close>

fun is_munmap :: "syscall \<Rightarrow> bool" where
  "is_munmap (Munmap a l) = True"
| "is_munmap c = False"

text \<open>
  \<open>call_succeeded k h c\<close>: the call \<open>c\<close>, made after the calls \<open>h\<close>, did not fail. It
  is stated for the calls whose result \<^verbatim>\<open>start()\<close> and \<^verbatim>\<open>initMemoryMapping()\<close> check
  (\<^verbatim>\<open>mmap\<close>, \<^verbatim>\<open>VIDIOC_QBUF\<close>, \<^verbatim>\<open>VIDIOC_STREAMON\<close>) and true of every other call.
  \<open>all_succeeded k h cs\<close> says so of each call of \<open>cs\<close>, made in this order after \<open>h\<close>.
\<close>

fun call_succeeded :: "kernel \<Rightarrow> syscall list \<Rightarrow> syscall \<Rightarrow> bool" where
  "call_succeeded k h (Mmap len off) = (k_mmap k h len off \<noteq> MAP_FAILED)"
| "call_succeeded k h (VIDIOC_QBUF i) = k_qbuf k h i"
| "call_succeeded k h VIDIOC_STREAMON = k_streamon k h"
| "call_succeeded k h c = True"

fun all_succeeded :: "kernel \<Rightarrow> syscall list \<Rightarrow> syscall list \<Rightarrow> bool" where
  "all_succeeded k h [] = True"
| "all_succeeded k h (c # cs) = (call_succeeded k h c \<and> all_succeeded k (h @ [c]) cs)"

text \<open>
  \<open>stops_at_failure k h r cs\<close>: a function that made the calls \<open>cs\<close> after \<open>h\<close> and
  returned \<open>r\<close> returned true having seen every call succeed, or returned false right
  after the first call that failed, which is the last call it made.
\<close>

definition stops_at_failure :: "kernel \<Rightarrow> syscall list \<Rightarrow> bool \<Rightarrow> syscall list \<Rightarrow> bool" where
  "stops_at_failure k h r cs =
     (if r then all_succeeded k h cs
      else cs \<noteq> [] \<and> all_succeeded k h (butlast cs) \<and>
           \<not> call_succeeded k (h @ butlast cs) (last cs))"

section \<open>A concrete device for the examples\<close>

text \<open>
  A toy camera: frames of 2 by 2 pixels in YUYV (8 bytes), one format, one control
  (brightness, 0..255), two buffers. Whatever format is requested it answers with its
  only one. Its memory holds \<open>0x10\<close> in every byte while the process owns the
  buffer and \<open>0xEE\<close> as soon as the last call has queued a buffer.
\<close>

definition toy_pix :: v4l2_pix_format where
  "toy_pix =
     \<lparr>pix_width = 2, pix_height = 2, pix_pixelformat = V4L2_PIX_FMT_YUYV,
      pix_bytesperline = 4, pix_sizeimage = 8\<rparr>"

definition toy_brightness :: v4l2_queryctrl where
  "toy_brightness =
     \<lparr>qc_id = 0x00980900, qc_type = 1, qc_name = ''Brightness'', qc_minimum = 0,
      qc_maximum = 255, qc_default_value = 128, qc_flags = 0\<rparr>"

definition toy_cam :: kernel where
  "toy_cam =
     \<lparr>k_open = (\<lambda>cs p. 3),
      k_querycap = (\<lambda>cs. Some \<lparr>cap_driver = ''toy'', cap_card = ''Toy Cam'',
                      cap_bus_info = ''usb-1'', cap_version = 1, cap_capabilities = 0x04000001\<rparr>),
      k_g_fmt = (\<lambda>cs. Some toy_pix),
      k_s_fmt = (\<lambda>cs f w h. Some toy_pix),
      k_enum_fmt = (\<lambda>cs i. if i = 0 then Some \<lparr>fmt_description = ''YUYV 4:2:2'',
                      fmt_pixelformat = V4L2_PIX_FMT_YUYV\<rparr> else None),
      k_queryctrl = (\<lambda>cs i. if i = (V4L2_CID_USER_CLASS OR V4L2_CTRL_FLAG_NEXT_CTRL) \<or> i = 0x00980900
                      then Some toy_brightness else None),
      k_querymenu = (\<lambda>cs i j. None),
      k_g_ctrl = (\<lambda>cs i. if i = 0x00980900 then Some 128 else None),
      k_s_ctrl = (\<lambda>cs i v. i = 0x00980900 \<and> 0 \<le> sint v \<and> sint v \<le> 255),
      k_reqbufs = (\<lambda>cs n. Some (if n = 0 then 0 else 2)),
      k_querybuf = (\<lambda>cs i. Some (8, 8 * i)),
      k_qbuf = (\<lambda>cs i. True),
      k_dqbuf = (\<lambda>cs. Some 0),
      k_streamon = (\<lambda>cs. True),
      k_streamoff = (\<lambda>cs. True),
      k_mmap = (\<lambda>cs len off. 0x1000 + ucast off),
      k_mem = (\<lambda>cs a. case rev cs of VIDIOC_QBUF i # _ \<Rightarrow> 0xEE | _ \<Rightarrow> 0x10)\<rparr>"

text \<open>The object once opened on the toy camera, and once streaming.\<close>

definition toy_opened :: V4l2CameraDevice where
  "toy_opened =
     \<lparr>device = ''/dev/video0'', fd = 3,
      capabilities = \<lparr>cap_driver = ''toy'', cap_card = ''Toy Cam'', cap_bus_info = ''usb-1'',
                       cap_version = 1, cap_capabilities = 0x04000001\<rparr>,
      cur_data_format = PixelFormat_of toy_pix,
      image_formats = [\<lparr>if_description = ''YUYV 4:2:2'', if_pixelFormat = V4L2_PIX_FMT_YUYV\<rparr>],
      controls = [\<lparr>ctrl_id = 0x00980900, ctrl_name = ''Brightness'', ctrl_type = 1,
                    ctrl_minimum = 0, ctrl_maximum = 255, ctrl_defaultValue = 128,
                    ctrl_menuItems = []\<rparr>],
      buffers = [],
      syscalls = []\<rparr>"

definition toy_streaming :: V4l2CameraDevice where
  "toy_streaming =
     toy_opened\<lparr>buffers := [\<lparr>buf_index = 0, buf_start = 0x1000, buf_length = 8\<rparr>,
                              \<lparr>buf_index = 1, buf_start = 0x1008, buf_length = 8\<rparr>]\<rparr>"

text \<open>The toy camera with a second mapping that fails, and with a second queueing that fails.\<close>

definition toy_mmap_fails :: kernel where
  "toy_mmap_fails = toy_cam\<lparr>k_mmap := \<lambda>cs len off. if off = 0 then 0x1000 else MAP_FAILED\<rparr>"

definition toy_qbuf_fails :: kernel where
  "toy_qbuf_fails = toy_cam\<lparr>k_qbuf := \<lambda>cs i. i = 0\<rparr>"

text \<open>The toy camera granting a single buffer.\<close>

definition toy_one_buffer :: kernel where
  "toy_one_buffer = toy_cam\<lparr>k_reqbufs := \<lambda>cs n. Some 1\<rparr>"

text \<open>
  The toy camera with its control flagged as disabled: the query for the control after
  the class start answers with it, the query for its own id answers with it again, and
  the query for the control after it fails (there is no other control).
\<close>

definition toy_disabled :: kernel where
  "toy_disabled =
     toy_cam\<lparr>k_queryctrl := \<lambda>cs i.
        if i = (V4L2_CID_USER_CLASS OR V4L2_CTRL_FLAG_NEXT_CTRL) \<or> i = 0x00980900
        then Some (toy_brightness\<lparr>qc_flags := V4L2_CTRL_FLAG_DISABLED\<rparr>) else None\<rparr>"

text \<open>The toy camera, but granting whatever format and size is requested.\<close>

definition toy_honours :: kernel where
  "toy_honours =
     toy_cam\<lparr>k_s_fmt := \<lambda>cs f w h.
        Some \<lparr>pix_width = w, pix_height = h, pix_pixelformat = f,
              pix_bytesperline = 2 * w, pix_sizeimage = 2 * w * h\<rparr>\<rparr>"

text \<open>The toy camera, but rejecting every format request.\<close>

definition toy_rejects :: kernel where
  "toy_rejects = toy_cam\<lparr>k_s_fmt := \<lambda>cs f w h. None\<rparr>"

text \<open>The opened object after the granting device has stored MJPG, and 4 by 4.\<close>

definition toy_mjpg :: V4l2CameraDevice where
  "toy_mjpg =
     toy_opened
       \<lparr>cur_data_format :=
          \<lparr>width = 2, height = 2, pixelFormat = 0x47504A4D, bytesPerLine = 4, imageByteSize = 8\<rparr>,
        syscalls := [VIDIOC_S_FMT 0x47504A4D 2 2]\<rparr>"

definition toy_4x4 :: V4l2CameraDevice where
  "toy_4x4 =
     toy_opened
       \<lparr>cur_data_format :=
          \<lparr>width = 4, height = 4, pixelFormat = V4L2_PIX_FMT_YUYV, bytesPerLine = 8,
           imageByteSize = 32\<rparr>,
        syscalls := [VIDIOC_S_FMT V4L2_PIX_FMT_YUYV 4 4]\<rparr>"

text \<open>The toy camera with a capability query that fails.\<close>

definition toy_no_querycap :: kernel where
  "toy_no_querycap = toy_cam\<lparr>k_querycap := \<lambda>cs. None\<rparr>"

text \<open>
  The constructor (lines 38--41) stores the path and initialises nothing else. The
  three vectors start empty; what the descriptor, the capabilities and the format hold
  before \<^verbatim>\<open>open()\<close> writes them is not fixed by the source, so they are arguments.
\<close>

definition V4l2CameraDevice_new ::
  "string \<Rightarrow> int \<Rightarrow> v4l2_capability \<Rightarrow> PixelFormat \<Rightarrow> V4l2CameraDevice" where
  "V4l2CameraDevice_new path fd0 cap0 fmt0 =
     \<lparr>device = path, fd = fd0, capabilities = cap0, cur_data_format = fmt0,
      image_formats = [], controls = [], buffers = [], syscalls = []\<rparr>"

text \<open>A fresh object for the examples, with arbitrary contents in those three fields.\<close>

definition stale_cap :: v4l2_capability where
  "stale_cap =
     \<lparr>cap_driver = ''?'', cap_card = ''?'', cap_bus_info = ''?'', cap_version = 0xDEADBEEF,
      cap_capabilities = 0xDEADBEEF\<rparr>"

definition toy_new :: "string \<Rightarrow> V4l2CameraDevice" where
  "toy_new path =
     V4l2CameraDevice_new path 12345 stale_cap
       \<lparr>width = 7, height = 7, pixelFormat = 7, bytesPerLine = 7, imageByteSize = 7\<rparr>"

section \<open>The toy camera opens and starts\<close>

text \<open>
  \<open>toy_opened\<close> and \<open>toy_streaming\<close> are the fields \<^verbatim>\<open>open()\<close> and \<^verbatim>\<open>start()\<close> leave
  behind on the toy camera.
\<close>

lemma upt2: "[0..<2] = [0, 1]"
  by (simp add: upt_rec)

lemma replicate2: "replicate 2 x = [x, x]"
  by (simp add: numeral_2_eq_2)

lemma toy_open:
  "open_device (Suc (Suc 0)) toy_cam (toy_new ''/dev/video0'') =
     Returns (True,
       toy_opened\<lparr>syscalls :=
         [SysOpen ''/dev/video0'', VIDIOC_QUERYCAP, VIDIOC_G_FMT, VIDIOC_ENUM_FMT 0,
          VIDIOC_ENUM_FMT 1, VIDIOC_QUERYCTRL 0x80980001, VIDIOC_QUERYCTRL 0x80980900,
          VIDIOC_G_CTRL 0x00980900]\<rparr>)"
  by (simp add: open_device_def query_device_def listImageFormats_def listControls_def
      toy_new_def V4l2CameraDevice_new_def stale_cap_def getControlValue_def ImageFormat_of_def
      toy_cam_def toy_opened_def toy_brightness_def
      V4L2_CTRL_FLAG_NEXT_CTRL_def V4L2_CID_USER_CLASS_def V4L2_CTRL_CLASS_USER_def V4L2_CTRL_FLAG_DISABLED_def
      ControlType_MENU_def Control_of_def issue_def Let_def)

lemma toy_start:
  "start toy_cam toy_opened =
     (True, toy_streaming\<lparr>syscalls :=
        [VIDIOC_REQBUFS 4, VIDIOC_QUERYBUF 0, Mmap 8 0, VIDIOC_QUERYBUF 1, Mmap 8 8,
         VIDIOC_QBUF 0, VIDIOC_QBUF 1, VIDIOC_STREAMON]\<rparr>)"
  by (simp add: start_def initMemoryMapping_def req_count_def toy_cam_def toy_streaming_def
      toy_opened_def issue_def Let_def upt2 replicate2 MAP_FAILED_def)

section \<open>Properties of \<^verbatim>\<open>capture\<close>\<close>

lemma capture_calls:
  assumes "capture k s = Returns (Some img, s')"
  shows "\<exists>idx. k_dqbuf k (syscalls s) = Some idx \<and> unat idx < length (buffers s) \<and>
           syscalls s' = syscalls s @
             [VIDIOC_DQBUF, VIDIOC_QBUF idx,
              MemRead (buf_start (buffers s ! unat idx)) (unat (imageByteSize (cur_data_format s)))] \<and>
           img_data img =
             read_bytes k (syscalls s @ [VIDIOC_DQBUF, VIDIOC_QBUF idx])
               (buf_start (buffers s ! unat idx)) (unat (imageByteSize (cur_data_format s)))"
  using assms
  by (auto simp: capture_def issue_def new_image_def Let_def split: option.splits if_splits)

text \<open>
  C1. On the toy camera a successful \<^verbatim>\<open>capture()\<close> issues, in this order, the dequeue,
  the requeue of buffer 0 and only then the read of the 8 bytes of its mapping: the copy
  is not between the dequeue and the requeue, and the frame holds the bytes \<open>0xEE\<close>
  that the memory shows after the requeue, not the \<open>0x10\<close> it showed before.
\<close>

theorem capture_copies_after_requeue:
  "capture toy_cam toy_streaming =
     Returns
       (Some \<lparr>img_width = 2, img_height = 2, img_step = 4, img_encoding = ''yuv422_yuy2'',
              img_data = [0xEE, 0xEE, 0xEE, 0xEE, 0xEE, 0xEE, 0xEE, 0xEE]\<rparr>,
        toy_streaming\<lparr>syscalls := [VIDIOC_DQBUF, VIDIOC_QBUF 0, MemRead 0x1000 8]\<rparr>)
   \<and> read_bytes toy_cam [VIDIOC_DQBUF] 0x1000 8 = [0x10, 0x10, 0x10, 0x10, 0x10, 0x10, 0x10, 0x10]"
  by (simp add: capture_def issue_def new_image_def read_bytes_def toy_cam_def toy_streaming_def
      toy_opened_def toy_pix_def PixelFormat_of_def MAP_FAILED_def YUV422_YUY2_def Let_def upt_rec)

text \<open>
  C9. Whenever \<^verbatim>\<open>capture()\<close> returns a frame, its data has exactly as many bytes as the
  image byte size of the format current at the call, and they are the bytes read at the
  start address of the buffer the device dequeued (which lie within its mapping).
\<close>

theorem capture_frame_size:
  assumes "capture k s = Returns (Some img, s')"
  shows "length (img_data img) = unat (imageByteSize (cur_data_format s)) \<and>
         cur_data_format s' = cur_data_format s \<and>
         (\<exists>idx. k_dqbuf k (syscalls s) = Some idx \<and> unat idx < length (buffers s) \<and>
            unat (imageByteSize (cur_data_format s)) \<le> unat (buf_length (buffers s ! unat idx)) \<and>
            img_data img =
              read_bytes k (syscalls s @ [VIDIOC_DQBUF, VIDIOC_QBUF idx])
                (buf_start (buffers s ! unat idx)) (unat (imageByteSize (cur_data_format s))))"
  using assms
  by (auto simp: capture_def issue_def new_image_def read_bytes_def Let_def
      split: option.splits if_splits)

text \<open>
  A capture of buffer 1 under a format of 4 bytes that is not YUYV: the frame has 4
  bytes, read at \<open>0x1008\<close>, and no encoding tag.
\<close>

theorem capture_frame_size_witness:
  "capture (toy_cam\<lparr>k_dqbuf := \<lambda>cs. Some 1\<rparr>)
       (toy_streaming\<lparr>cur_data_format :=
          \<lparr>width = 1, height = 2, pixelFormat = 0x47504A4D, bytesPerLine = 2, imageByteSize = 4\<rparr>\<rparr>) =
     Returns
       (Some \<lparr>img_width = 1, img_height = 2, img_step = 2, img_encoding = [],
              img_data = [0xEE, 0xEE, 0xEE, 0xEE]\<rparr>,
        toy_streaming\<lparr>cur_data_format :=
          \<lparr>width = 1, height = 2, pixelFormat = 0x47504A4D, bytesPerLine = 2, imageByteSize = 4\<rparr>,
          syscalls := [VIDIOC_DQBUF, VIDIOC_QBUF 1, MemRead 0x1008 4]\<rparr>) \<and>
   length [0xEE, 0xEE, 0xEE, 0xEE :: u8] = unat (4 :: u32)"
proof -
  have c: "capture (toy_cam\<lparr>k_dqbuf := \<lambda>cs. Some 1\<rparr>)
       (toy_streaming\<lparr>cur_data_format :=
          \<lparr>width = 1, height = 2, pixelFormat = 0x47504A4D, bytesPerLine = 2, imageByteSize = 4\<rparr>\<rparr>) =
     Returns
       (Some \<lparr>img_width = 1, img_height = 2, img_step = 2, img_encoding = [],
              img_data = [0xEE, 0xEE, 0xEE, 0xEE]\<rparr>,
        toy_streaming\<lparr>cur_data_format :=
          \<lparr>width = 1, height = 2, pixelFormat = 0x47504A4D, bytesPerLine = 2, imageByteSize = 4\<rparr>,
          syscalls := [VIDIOC_DQBUF, VIDIOC_QBUF 1, MemRead 0x1008 4]\<rparr>)"
    by (simp add: capture_def issue_def new_image_def read_bytes_def toy_cam_def toy_streaming_def
      toy_opened_def MAP_FAILED_def Let_def upt_rec V4L2_PIX_FMT_YUYV_def v4l2_fourcc_def
      char_to_u32_def)
  from capture_frame_size [OF c] show ?thesis
    using c by (simp add: read_bytes_def)
qed

section \<open>Properties of \<^verbatim>\<open>stop\<close>\<close>

lemma unmap_buffers_eq:
  "unmap_buffers bs s =
     s\<lparr>syscalls := syscalls s @ map (\<lambda>b. Munmap (buf_start b) (buf_length b)) bs\<rparr>"
  by (induction bs arbitrary: s) (simp_all add: issue_def)

text \<open>
  C2, as the code has it. \<^verbatim>\<open>stop()\<close> cleans up exactly when \<^verbatim>\<open>VIDIOC_STREAMOFF\<close>
  succeeds: it then unmaps every buffer in order, empties the buffer list, issues
  the request for zero buffers and returns true. When the call fails it returns false
  at once: the buffer list is as it was, and neither \<^verbatim>\<open>munmap\<close> nor the request for
  zero buffers is issued.
\<close>

theorem stop_cleanup:
  "stop k s =
     (if k_streamoff k (syscalls s)
      then (True, s\<lparr>buffers := [],
                     syscalls := syscalls s @ [VIDIOC_STREAMOFF] @
                       map (\<lambda>b. Munmap (buf_start b) (buf_length b)) (buffers s) @
                       [VIDIOC_REQBUFS 0]\<rparr>)
      else (False, s\<lparr>syscalls := syscalls s @ [VIDIOC_STREAMOFF]\<rparr>))"
  by (simp add: stop_def unmap_buffers_eq issue_def Let_def)

theorem stop_cleanup_witness:
  "stop toy_cam toy_streaming =
     (True, toy_opened\<lparr>syscalls :=
        [VIDIOC_STREAMOFF, Munmap 0x1000 8, Munmap 0x1008 8, VIDIOC_REQBUFS 0]\<rparr>)"
  using stop_cleanup [of toy_cam toy_streaming]
  by (simp add: toy_cam_def toy_streaming_def toy_opened_def)

text \<open>
  C2 as stated fails: on the toy camera with a failing \<^verbatim>\<open>VIDIOC_STREAMOFF\<close>, \<^verbatim>\<open>stop()\<close>
  returns false having issued that one call, and both buffers are still in the list.
\<close>

theorem stop_failure_keeps_buffers:
  "stop (toy_cam\<lparr>k_streamoff := \<lambda>cs. False\<rparr>) toy_streaming =
     (False, toy_streaming\<lparr>syscalls := [VIDIOC_STREAMOFF]\<rparr>) \<and>
   buffers toy_streaming =
     [\<lparr>buf_index = 0, buf_start = 0x1000, buf_length = 8\<rparr>,
      \<lparr>buf_index = 1, buf_start = 0x1008, buf_length = 8\<rparr>]"
  by (simp add: stop_def issue_def toy_cam_def toy_streaming_def toy_opened_def)

section \<open>Properties of \<^verbatim>\<open>initMemoryMapping\<close> and \<^verbatim>\<open>start\<close>\<close>

lemma all_succeeded_append:
  "all_succeeded k h (a @ b) = (all_succeeded k h a \<and> all_succeeded k (h @ a) b)"
  by (induction a arbitrary: h) auto

lemma stops_at_failure_prepend:
  assumes "all_succeeded k h a" and "stops_at_failure k (h @ a) r b"
  shows "stops_at_failure k h r (a @ b)"
proof (cases r)
  case True
  with assms show ?thesis by (simp add: stops_at_failure_def all_succeeded_append)
next
  case False
  with assms have b: "b \<noteq> []" by (simp add: stops_at_failure_def)
  with False assms show ?thesis
    by (simp add: stops_at_failure_def all_succeeded_append butlast_append)
qed

lemma map_buffers_run:
  "\<exists>cs. syscalls (snd (map_buffers k is s)) = syscalls s @ cs \<and> filter is_munmap cs = [] \<and>
        stops_at_failure k (syscalls s) (fst (map_buffers k is s)) cs"
proof (induction "is" arbitrary: s)
  case Nil
  then show ?case by (simp add: stops_at_failure_def)
next
  case (Cons i rest)
  define r where "r = (case k_querybuf k (syscalls s) (of_nat i) of None \<Rightarrow> (0, 0) | Some lo \<Rightarrow> lo)"
  define a where "a = k_mmap k (syscalls s @ [VIDIOC_QUERYBUF (of_nat i)]) (fst r) (snd r)"
  define s3 where "s3 = s\<lparr>syscalls := syscalls s @ [VIDIOC_QUERYBUF (of_nat i), Mmap (fst r) (snd r)],
     buffers := (buffers s)[i := \<lparr>buf_index = of_nat i, buf_start = a, buf_length = ucast (fst r)\<rparr>]\<rparr>"
  have step: "map_buffers k (i # rest) s = (if a = MAP_FAILED then (False, s3) else map_buffers k rest s3)"
    by (simp add: Let_def issue_def r_def a_def s3_def)
  have s3: "syscalls s3 = syscalls s @ [VIDIOC_QUERYBUF (of_nat i), Mmap (fst r) (snd r)]"
    by (simp add: s3_def)
  show ?case
  proof (cases "a = MAP_FAILED")
    case True
    then have "stops_at_failure k (syscalls s) False [VIDIOC_QUERYBUF (of_nat i), Mmap (fst r) (snd r)]"
      by (simp add: stops_at_failure_def a_def)
    with True show ?thesis by (simp add: step s3 del: map_buffers.simps)
  next
    case False
    from Cons.IH [of s3] obtain cs where
      cs: "syscalls (snd (map_buffers k rest s3)) = syscalls s3 @ cs" "filter is_munmap cs = []"
        "stops_at_failure k (syscalls s3) (fst (map_buffers k rest s3)) cs"
      by blast
    from False have ok: "all_succeeded k (syscalls s) [VIDIOC_QUERYBUF (of_nat i), Mmap (fst r) (snd r)]"
      by (simp add: a_def)
    from stops_at_failure_prepend [OF ok] cs(3)
    have "stops_at_failure k (syscalls s) (fst (map_buffers k rest s3))
            ([VIDIOC_QUERYBUF (of_nat i), Mmap (fst r) (snd r)] @ cs)"
      by (simp add: s3)
    with False cs(1,2) show ?thesis
      by (simp add: step s3 del: map_buffers.simps)
  qed
qed

lemma queue_buffers_run:
  "\<exists>cs. syscalls (snd (queue_buffers k bs s)) = syscalls s @ cs \<and> filter is_munmap cs = [] \<and>
        stops_at_failure k (syscalls s) (fst (queue_buffers k bs s)) cs"
proof (induction bs arbitrary: s)
  case Nil
  then show ?case by (simp add: stops_at_failure_def)
next
  case (Cons b rest)
  let ?s1 = "issue (VIDIOC_QBUF (buf_index b)) s"
  show ?case
  proof (cases "k_qbuf k (syscalls s) (buf_index b)")
    case False
    then have "stops_at_failure k (syscalls s) False [VIDIOC_QBUF (buf_index b)]"
      by (simp add: stops_at_failure_def)
    with False show ?thesis by (simp add: issue_def)
  next
    case True
    from Cons.IH [of ?s1] obtain cs where
      cs: "syscalls (snd (queue_buffers k rest ?s1)) = syscalls ?s1 @ cs" "filter is_munmap cs = []"
        "stops_at_failure k (syscalls ?s1) (fst (queue_buffers k rest ?s1)) cs"
      by blast
    from True have ok: "all_succeeded k (syscalls s) [VIDIOC_QBUF (buf_index b)]" by simp
    from stops_at_failure_prepend [OF ok] cs(3)
    have "stops_at_failure k (syscalls s) (fst (queue_buffers k rest ?s1))
            ([VIDIOC_QBUF (buf_index b)] @ cs)"
      by (simp add: issue_def)
    with True cs(1,2) show ?thesis by (simp add: issue_def)
  qed
qed

lemma initMemoryMapping_run:
  "\<exists>cs. syscalls (snd (initMemoryMapping k s)) = syscalls s @ cs \<and> filter is_munmap cs = [] \<and>
        (if req_count k s < 2 then \<not> fst (initMemoryMapping k s) \<and> cs = [VIDIOC_REQBUFS 4]
         else stops_at_failure k (syscalls s) (fst (initMemoryMapping k s)) cs)"
proof (cases "req_count k s < 2")
  case True
  then show ?thesis
    by (simp add: initMemoryMapping_def req_count_def Let_def issue_def)
next
  case False
  define s1 where "s1 = (issue (VIDIOC_REQBUFS 4) s)\<lparr>buffers := replicate (unat (req_count k s))
                                  \<lparr>buf_index = 0, buf_start = 0, buf_length = 0\<rparr>\<rparr>"
  have eq: "initMemoryMapping k s = map_buffers k [0..<unat (req_count k s)] s1"
    using False by (simp add: initMemoryMapping_def req_count_def Let_def s1_def)
  have s1: "syscalls s1 = syscalls s @ [VIDIOC_REQBUFS 4]" by (simp add: s1_def issue_def)
  from map_buffers_run [of k "[0..<unat (req_count k s)]" s1] obtain cs where
    cs: "syscalls (snd (initMemoryMapping k s)) = syscalls s1 @ cs" "filter is_munmap cs = []"
      "stops_at_failure k (syscalls s1) (fst (initMemoryMapping k s)) cs"
    unfolding eq by blast
  have ok: "all_succeeded k (syscalls s) [VIDIOC_REQBUFS 4]" by simp
  from stops_at_failure_prepend [OF ok] cs(3)
  have "stops_at_failure k (syscalls s) (fst (initMemoryMapping k s)) ([VIDIOC_REQBUFS 4] @ cs)"
    by (simp add: s1)
  with False cs(1,2) show ?thesis by (simp add: s1)
qed

lemma start_run:
  "\<exists>cs. syscalls (snd (start k s)) = syscalls s @ cs \<and> filter is_munmap cs = [] \<and>
        (if req_count k s < 2 then \<not> fst (start k s) \<and> cs = [VIDIOC_REQBUFS 4]
         else stops_at_failure k (syscalls s) (fst (start k s)) cs)"
proof -
  obtain r1 s1 where i: "initMemoryMapping k s = (r1, s1)" by (cases "initMemoryMapping k s")
  obtain r2 s2 where q: "queue_buffers k (buffers s1) s1 = (r2, s2)"
    by (cases "queue_buffers k (buffers s1) s1")
  from initMemoryMapping_run [of k s] obtain cs1 where
    raw: "syscalls (snd (initMemoryMapping k s)) = syscalls s @ cs1" "filter is_munmap cs1 = []"
      "if req_count k s < 2 then \<not> fst (initMemoryMapping k s) \<and> cs1 = [VIDIOC_REQBUFS 4]
       else stops_at_failure k (syscalls s) (fst (initMemoryMapping k s)) cs1"
    by blast
  have cs1: "syscalls s1 = syscalls s @ cs1" "filter is_munmap cs1 = []"
      "if req_count k s < 2 then \<not> r1 \<and> cs1 = [VIDIOC_REQBUFS 4]
       else stops_at_failure k (syscalls s) r1 cs1"
    using raw unfolding i by (auto split: if_splits)
  show ?thesis
  proof (cases r1)
    case False
    with i have "start k s = (False, s1)" by (simp add: start_def)
    with False cs1 show ?thesis by auto
  next
    case True
    with cs1(3) have big: "\<not> req_count k s < 2" and ok1: "all_succeeded k (syscalls s) cs1"
      by (auto simp: stops_at_failure_def split: if_splits)
    from queue_buffers_run [of k "buffers s1" s1] obtain cs2 where
      cs2: "syscalls s2 = syscalls s1 @ cs2" "filter is_munmap cs2 = []"
        "stops_at_failure k (syscalls s1) r2 cs2"
      unfolding q by auto
    show ?thesis
    proof (cases r2)
      case False
      with True i q have st: "start k s = (False, s2)" by (simp add: start_def)
      from stops_at_failure_prepend [OF ok1] cs2(3) False
      have "stops_at_failure k (syscalls s) False (cs1 @ cs2)" by (simp add: cs1(1))
      with st big cs1 cs2 show ?thesis by auto
    next
      case r2: True
      with cs2(3) have ok2: "all_succeeded k (syscalls s1) cs2" by (simp add: stops_at_failure_def)
      from True r2 i q have st: "start k s = (k_streamon k (syscalls s2), issue VIDIOC_STREAMON s2)"
        by (simp add: start_def)
      have ok12: "all_succeeded k (syscalls s) (cs1 @ cs2)"
        using ok1 ok2 by (simp add: all_succeeded_append cs1(1))
      have "stops_at_failure k (syscalls s @ cs1 @ cs2) (k_streamon k (syscalls s2)) [VIDIOC_STREAMON]"
        by (simp add: stops_at_failure_def cs1(1) cs2(1))
      from stops_at_failure_prepend [OF ok12 this]
      have "stops_at_failure k (syscalls s) (k_streamon k (syscalls s2)) (cs1 @ cs2 @ [VIDIOC_STREAMON])"
        by simp
      with st big cs1 cs2 show ?thesis by (auto simp: issue_def)
    qed
  qed
qed

lemma map_buffers_length:
  "length (buffers (snd (map_buffers k is s))) = length (buffers s)"
  by (induction "is" arbitrary: s) (auto simp: Let_def issue_def)

lemma queue_buffers_buffers:
  "buffers (snd (queue_buffers k bs s)) = buffers s"
  by (induction bs arbitrary: s) (simp_all add: issue_def)

lemma initMemoryMapping_length:
  "length (buffers (snd (initMemoryMapping k s))) =
     (if req_count k s < 2 then length (buffers s) else unat (req_count k s))"
  by (simp add: initMemoryMapping_def Let_def map_buffers_length issue_def)

lemma start_buffers:
  "buffers (snd (start k s)) = buffers (snd (initMemoryMapping k s))"
proof -
  obtain r1 s1 where i: "initMemoryMapping k s = (r1, s1)" by (cases "initMemoryMapping k s")
  obtain r2 s2 where q: "queue_buffers k (buffers s1) s1 = (r2, s2)"
    by (cases "queue_buffers k (buffers s1) s1")
  from queue_buffers_buffers [of k "buffers s1" s1] q have "buffers s2 = buffers s1" by simp
  then show ?thesis
    using i q by (cases r1; cases r2) (auto simp: start_def issue_def)
qed

text \<open>
  C3, as the code has it. Neither \<^verbatim>\<open>initMemoryMapping()\<close> nor \<^verbatim>\<open>start()\<close> ever calls
  \<^verbatim>\<open>munmap\<close>: whatever fails, the calls they add hold no \<^verbatim>\<open>munmap\<close>, so a buffer mapped
  earlier in the call stays mapped. Both return false when fewer than two buffers are
  granted, having made the request only. Otherwise they return false right after the
  first mapping, queueing or stream start that fails (it is the last call they make),
  and true only when none has failed. The buffer list is not emptied: once the count
  check has passed it holds as many entries as the device granted, and \<^verbatim>\<open>start()\<close>
  leaves it as \<^verbatim>\<open>initMemoryMapping()\<close> built it.
\<close>

theorem start_never_unmaps:
  "(\<exists>cs. syscalls (snd (initMemoryMapping k s)) = syscalls s @ cs \<and> filter is_munmap cs = [] \<and>
      (if req_count k s < 2 then \<not> fst (initMemoryMapping k s) \<and> cs = [VIDIOC_REQBUFS 4]
       else stops_at_failure k (syscalls s) (fst (initMemoryMapping k s)) cs)) \<and>
   (\<exists>cs. syscalls (snd (start k s)) = syscalls s @ cs \<and> filter is_munmap cs = [] \<and>
      (if req_count k s < 2 then \<not> fst (start k s) \<and> cs = [VIDIOC_REQBUFS 4]
       else stops_at_failure k (syscalls s) (fst (start k s)) cs)) \<and>
   length (buffers (snd (initMemoryMapping k s))) =
     (if req_count k s < 2 then length (buffers s) else unat (req_count k s)) \<and>
   buffers (snd (start k s)) = buffers (snd (initMemoryMapping k s))"
  using initMemoryMapping_run [of k s] start_run [of k s] initMemoryMapping_length [of k s]
    start_buffers [of k s]
  by blast

text \<open>
  C3 as stated fails. When the second mapping fails, \<^verbatim>\<open>initMemoryMapping()\<close> returns
  false with the first buffer mapped at \<open>0x1000\<close>, still in the list, and no \<^verbatim>\<open>munmap\<close>
  issued. When queueing the second buffer fails, \<^verbatim>\<open>start()\<close> returns false with both
  buffers mapped and in the list.
\<close>

theorem start_failure_leaves_mappings:
  "initMemoryMapping toy_mmap_fails toy_opened =
     (False, toy_opened
        \<lparr>buffers := [\<lparr>buf_index = 0, buf_start = 0x1000, buf_length = 8\<rparr>,
                     \<lparr>buf_index = 1, buf_start = MAP_FAILED, buf_length = 8\<rparr>],
         syscalls := [VIDIOC_REQBUFS 4, VIDIOC_QUERYBUF 0, Mmap 8 0, VIDIOC_QUERYBUF 1, Mmap 8 8]\<rparr>) \<and>
   k_mmap toy_mmap_fails [VIDIOC_REQBUFS 4, VIDIOC_QUERYBUF 0] 8 0 = 0x1000 \<and>
   start toy_qbuf_fails toy_opened =
     (False, toy_opened
        \<lparr>buffers := [\<lparr>buf_index = 0, buf_start = 0x1000, buf_length = 8\<rparr>,
                     \<lparr>buf_index = 1, buf_start = 0x1008, buf_length = 8\<rparr>],
         syscalls := [VIDIOC_REQBUFS 4, VIDIOC_QUERYBUF 0, Mmap 8 0, VIDIOC_QUERYBUF 1, Mmap 8 8,
                      VIDIOC_QBUF 0, VIDIOC_QBUF 1]\<rparr>)"
  by (simp add: start_def initMemoryMapping_def req_count_def toy_mmap_fails_def toy_qbuf_fails_def
      toy_cam_def toy_opened_def issue_def Let_def upt2 replicate2 MAP_FAILED_def)

text \<open>
  The four ways out of \<^verbatim>\<open>start()\<close> on the toy camera: a second mapping that fails, a
  second queueing that fails, no failure, and a single buffer granted.
\<close>

theorem start_never_unmaps_witness:
  "start toy_mmap_fails toy_opened =
     (False, toy_opened
        \<lparr>buffers := [\<lparr>buf_index = 0, buf_start = 0x1000, buf_length = 8\<rparr>,
                     \<lparr>buf_index = 1, buf_start = MAP_FAILED, buf_length = 8\<rparr>],
         syscalls := [VIDIOC_REQBUFS 4, VIDIOC_QUERYBUF 0, Mmap 8 0, VIDIOC_QUERYBUF 1, Mmap 8 8]\<rparr>) \<and>
   stops_at_failure toy_mmap_fails [] False
     [VIDIOC_REQBUFS 4, VIDIOC_QUERYBUF 0, Mmap 8 0, VIDIOC_QUERYBUF 1, Mmap 8 8] \<and>
   fst (start toy_qbuf_fails toy_opened) = False \<and>
   stops_at_failure toy_qbuf_fails [] False
     [VIDIOC_REQBUFS 4, VIDIOC_QUERYBUF 0, Mmap 8 0, VIDIOC_QUERYBUF 1, Mmap 8 8,
      VIDIOC_QBUF 0, VIDIOC_QBUF 1] \<and>
   fst (start toy_cam toy_opened) = True \<and>
   stops_at_failure toy_cam [] True
     [VIDIOC_REQBUFS 4, VIDIOC_QUERYBUF 0, Mmap 8 0, VIDIOC_QUERYBUF 1, Mmap 8 8,
      VIDIOC_QBUF 0, VIDIOC_QBUF 1, VIDIOC_STREAMON] \<and>
   req_count toy_one_buffer toy_opened = 1 \<and>
   start toy_one_buffer toy_opened = (False, toy_opened\<lparr>syscalls := [VIDIOC_REQBUFS 4]\<rparr>)"
proof -
  have m: "start toy_mmap_fails toy_opened =
     (False, toy_opened
        \<lparr>buffers := [\<lparr>buf_index = 0, buf_start = 0x1000, buf_length = 8\<rparr>,
                     \<lparr>buf_index = 1, buf_start = MAP_FAILED, buf_length = 8\<rparr>],
         syscalls := [VIDIOC_REQBUFS 4, VIDIOC_QUERYBUF 0, Mmap 8 0, VIDIOC_QUERYBUF 1, Mmap 8 8]\<rparr>)"
    by (simp add: start_def initMemoryMapping_def req_count_def toy_mmap_fails_def toy_cam_def
        toy_opened_def issue_def Let_def upt2 replicate2 MAP_FAILED_def)
  have q: "start toy_qbuf_fails toy_opened =
     (False, toy_opened
        \<lparr>buffers := [\<lparr>buf_index = 0, buf_start = 0x1000, buf_length = 8\<rparr>,
                     \<lparr>buf_index = 1, buf_start = 0x1008, buf_length = 8\<rparr>],
         syscalls := [VIDIOC_REQBUFS 4, VIDIOC_QUERYBUF 0, Mmap 8 0, VIDIOC_QUERYBUF 1, Mmap 8 8,
                      VIDIOC_QBUF 0, VIDIOC_QBUF 1]\<rparr>)"
    by (simp add: start_def initMemoryMapping_def req_count_def toy_qbuf_fails_def toy_cam_def
        toy_opened_def issue_def Let_def upt2 replicate2 MAP_FAILED_def)
  have o: "start toy_one_buffer toy_opened = (False, toy_opened\<lparr>syscalls := [VIDIOC_REQBUFS 4]\<rparr>)"
    by (simp add: start_def initMemoryMapping_def req_count_def toy_one_buffer_def toy_cam_def
        toy_opened_def issue_def Let_def)
  have c2: "req_count toy_mmap_fails toy_opened = 2" "req_count toy_qbuf_fails toy_opened = 2"
    "req_count toy_cam toy_opened = 2" "req_count toy_one_buffer toy_opened = 1"
    by (simp_all add: req_count_def toy_mmap_fails_def toy_qbuf_fails_def toy_one_buffer_def
        toy_cam_def)
  have e: "syscalls toy_opened = []" "syscalls toy_streaming = []"
    by (simp_all add: toy_opened_def toy_streaming_def)
  from start_never_unmaps [of toy_mmap_fails toy_opened]
    start_never_unmaps [of toy_qbuf_fails toy_opened]
    start_never_unmaps [of toy_cam toy_opened]
    start_never_unmaps [of toy_one_buffer toy_opened]
  show ?thesis
    by (simp add: m q o c2 e toy_start)
qed

section \<open>Properties of format negotiation\<close>

lemma fourcc_YUYV: "v4l2_fourcc char_signed CHR ''Y'' CHR ''U'' CHR ''Y'' CHR ''V'' = 0x56595559"
  by (simp add: v4l2_fourcc_def char_to_u32_def)

lemma fourcc_MJPG: "v4l2_fourcc char_signed CHR ''M'' CHR ''J'' CHR ''P'' CHR ''G'' = 0x47504A4D"
  by (simp add: v4l2_fourcc_def char_to_u32_def)

lemma PIX_FMT_YUYV: "V4L2_PIX_FMT_YUYV = 0x56595559"
  by (simp add: V4L2_PIX_FMT_YUYV_def fourcc_YUYV)

text \<open>
  C7. Whenever \<^verbatim>\<open>requestDataFormat\<close> returns true, the stored current format is built
  from the structure the device wrote back for that very request, not from the
  arguments. The same holds for \<^verbatim>\<open>requestPixelFormat\<close> and \<^verbatim>\<open>requestImageSize\<close>
  whenever they return true having made a request; otherwise they leave the object as
  it was.
\<close>

theorem requestDataFormat_stores_reply:
  "(requestDataFormat k f s = (True, s') \<longrightarrow>
      (\<exists>pix. k_s_fmt k (syscalls s) (pixelFormat f) (width f) (height f) = Some pix \<and>
             cur_data_format s' = PixelFormat_of pix)) \<and>
   (requestPixelFormat char_signed k fourcc s = (True, s') \<longrightarrow>
      s' = s \<or>
      (\<exists>pix. k_s_fmt k (syscalls s)
                (v4l2_fourcc char_signed (fourcc ! 0) (fourcc ! 1) (fourcc ! 2) (fourcc ! 3))
                (width (cur_data_format s)) (height (cur_data_format s)) = Some pix \<and>
             cur_data_format s' = PixelFormat_of pix)) \<and>
   (requestImageSize k sz s = (True, s') \<longrightarrow>
      s' = s \<or>
      (\<exists>pix. k_s_fmt k (syscalls s) (pixelFormat (cur_data_format s))
                (ucast (sz ! 0)) (ucast (sz ! 1)) = Some pix \<and>
             cur_data_format s' = PixelFormat_of pix))"
  by (auto simp: requestDataFormat_def requestPixelFormat_def requestImageSize_def issue_def Let_def
      split: option.splits if_splits)

theorem requestDataFormat_stores_reply_witness:
  "requestDataFormat toy_cam
       \<lparr>width = 640, height = 480, pixelFormat = 0x47504A4D, bytesPerLine = 0, imageByteSize = 0\<rparr>
       toy_opened =
     (True, toy_opened\<lparr>syscalls := [VIDIOC_S_FMT 0x47504A4D 640 480]\<rparr>) \<and>
   requestPixelFormat True toy_cam ''MJPG'' toy_opened =
     (True, toy_opened\<lparr>syscalls := [VIDIOC_S_FMT 0x47504A4D 2 2]\<rparr>) \<and>
   requestImageSize toy_cam [640, 480] toy_opened =
     (True, toy_opened\<lparr>syscalls := [VIDIOC_S_FMT V4L2_PIX_FMT_YUYV 640 480]\<rparr>) \<and>
   cur_data_format toy_opened = PixelFormat_of toy_pix \<and>
   PixelFormat_of toy_pix =
     \<lparr>width = 2, height = 2, pixelFormat = V4L2_PIX_FMT_YUYV, bytesPerLine = 4, imageByteSize = 8\<rparr>"
proof -
  have d: "requestDataFormat toy_cam
       \<lparr>width = 640, height = 480, pixelFormat = 0x47504A4D, bytesPerLine = 0, imageByteSize = 0\<rparr>
       toy_opened =
     (True, toy_opened\<lparr>syscalls := [VIDIOC_S_FMT 0x47504A4D 640 480]\<rparr>)"
    by (simp add: requestDataFormat_def toy_cam_def toy_opened_def issue_def)
  have p: "requestPixelFormat True toy_cam ''MJPG'' toy_opened =
     (True, toy_opened\<lparr>syscalls := [VIDIOC_S_FMT 0x47504A4D 2 2]\<rparr>)"
    by (simp add: requestPixelFormat_def requestDataFormat_def toy_cam_def toy_opened_def toy_pix_def
        PixelFormat_of_def issue_def Let_def fourcc_MJPG PIX_FMT_YUYV)
  have r: "requestImageSize toy_cam [640, 480] toy_opened =
     (True, toy_opened\<lparr>syscalls := [VIDIOC_S_FMT V4L2_PIX_FMT_YUYV 640 480]\<rparr>)"
    by (simp add: requestImageSize_def requestDataFormat_def toy_cam_def toy_opened_def toy_pix_def
        PixelFormat_of_def issue_def Let_def)
  from requestDataFormat_stores_reply
    [of toy_cam
      "\<lparr>width = 640, height = 480, pixelFormat = 0x47504A4D, bytesPerLine = 0, imageByteSize = 0\<rparr>"
      toy_opened "toy_opened\<lparr>syscalls := [VIDIOC_S_FMT 0x47504A4D 640 480]\<rparr>"]
    requestDataFormat_stores_reply
    [of toy_cam _ toy_opened "toy_opened\<lparr>syscalls := [VIDIOC_S_FMT 0x47504A4D 2 2]\<rparr>" True
      "''MJPG''"]
    requestDataFormat_stores_reply
    [of toy_cam _ toy_opened "toy_opened\<lparr>syscalls := [VIDIOC_S_FMT V4L2_PIX_FMT_YUYV 640 480]\<rparr>"
      _ _ "[640, 480]"]
    d p r
  show ?thesis
    by (simp add: toy_opened_def toy_pix_def PixelFormat_of_def)
qed

lemma requestPixelFormat_same:
  "length fourcc = 4 \<and>
    pixelFormat (cur_data_format s) =
      v4l2_fourcc char_signed (fourcc ! 0) (fourcc ! 1) (fourcc ! 2) (fourcc ! 3)
      \<longrightarrow> requestPixelFormat char_signed k fourcc s = (True, s)"
  by (simp add: requestPixelFormat_def)

lemma requestImageSize_same:
  "ucast (width (cur_data_format s)) = w \<and> ucast (height (cur_data_format s)) = h
      \<longrightarrow> requestImageSize k [w, h] s = (True, s)"
  by (simp add: requestImageSize_def)

lemma requestDataFormat_calls:
  "syscalls (snd (requestDataFormat k f s)) =
     syscalls s @ [VIDIOC_S_FMT (pixelFormat f) (width f) (height f)]"
  by (simp add: requestDataFormat_def issue_def split: option.splits)

lemma requestDataFormat_rejected:
  "requestDataFormat k f s = (False, s') \<Longrightarrow> cur_data_format s' = cur_data_format s"
  by (auto simp: requestDataFormat_def issue_def split: option.splits)

lemma requestPixelFormat_calls:
  "\<exists>cs. syscalls (snd (requestPixelFormat char_signed k fourcc s)) = syscalls s @ cs \<and> length cs \<le> 1"
  by (simp add: requestPixelFormat_def requestDataFormat_calls Let_def)

lemma requestImageSize_calls:
  "\<exists>cs. syscalls (snd (requestImageSize k sz s)) = syscalls s @ cs \<and> length cs \<le> 1"
  by (simp add: requestImageSize_def requestDataFormat_calls Let_def)

lemma requestPixelFormat_twice:
  "requestPixelFormat char_signed k fourcc s = (True, s1) \<and>
    pixelFormat (cur_data_format s1) =
      v4l2_fourcc char_signed (fourcc ! 0) (fourcc ! 1) (fourcc ! 2) (fourcc ! 3)
      \<longrightarrow> requestPixelFormat char_signed k fourcc s1 = (True, s1) \<and>
          (\<exists>cs. syscalls s1 = syscalls s @ cs \<and> length cs \<le> 1)"
proof (intro impI, elim conjE)
  assume r: "requestPixelFormat char_signed k fourcc s = (True, s1)"
    and m: "pixelFormat (cur_data_format s1) =
      v4l2_fourcc char_signed (fourcc ! 0) (fourcc ! 1) (fourcc ! 2) (fourcc ! 3)"
  from r have len: "length fourcc = 4"
    by (cases "length fourcc = 4") (simp_all add: requestPixelFormat_def)
  from requestPixelFormat_calls [of char_signed k fourcc s] r
  have "\<exists>cs. syscalls s1 = syscalls s @ cs \<and> length cs \<le> 1" by simp
  with len m show "requestPixelFormat char_signed k fourcc s1 = (True, s1) \<and>
          (\<exists>cs. syscalls s1 = syscalls s @ cs \<and> length cs \<le> 1)"
    by (simp add: requestPixelFormat_def)
qed

lemma requestImageSize_twice:
  "requestImageSize k [w, h] s = (True, s2) \<and>
    ucast (width (cur_data_format s2)) = w \<and> ucast (height (cur_data_format s2)) = h
      \<longrightarrow> requestImageSize k [w, h] s2 = (True, s2) \<and>
          (\<exists>cs. syscalls s2 = syscalls s @ cs \<and> length cs \<le> 1)"
proof (intro impI, elim conjE)
  assume r: "requestImageSize k [w, h] s = (True, s2)"
    and m: "ucast (width (cur_data_format s2)) = w" "ucast (height (cur_data_format s2)) = h"
  from requestImageSize_calls [of k "[w, h]" s] r
  have "\<exists>cs. syscalls s2 = syscalls s @ cs \<and> length cs \<le> 1" by simp
  with m show "requestImageSize k [w, h] s2 = (True, s2) \<and>
          (\<exists>cs. syscalls s2 = syscalls s @ cs \<and> length cs \<le> 1)"
    by (simp add: requestImageSize_def)
qed

lemma requestPixelFormat_again:
  "length fourcc = 4 \<and> requestPixelFormat char_signed k fourcc s = (r, s3) \<and>
    (\<not> r \<or> pixelFormat (cur_data_format s3) \<noteq>
       v4l2_fourcc char_signed (fourcc ! 0) (fourcc ! 1) (fourcc ! 2) (fourcc ! 3))
      \<longrightarrow> syscalls (snd (requestPixelFormat char_signed k fourcc s3)) =
            syscalls s3 @
              [VIDIOC_S_FMT
                 (v4l2_fourcc char_signed (fourcc ! 0) (fourcc ! 1) (fourcc ! 2) (fourcc ! 3))
                 (width (cur_data_format s3)) (height (cur_data_format s3))]"
proof (intro impI, elim conjE)
  let ?code = "v4l2_fourcc char_signed (fourcc ! 0) (fourcc ! 1) (fourcc ! 2) (fourcc ! 3)"
  assume len: "length fourcc = 4"
    and r: "requestPixelFormat char_signed k fourcc s = (r, s3)"
    and d: "\<not> r \<or> pixelFormat (cur_data_format s3) \<noteq> ?code"
  have m: "pixelFormat (cur_data_format s3) \<noteq> ?code"
  proof (cases r)
    case True
    with d show ?thesis by simp
  next
    case False
    show ?thesis
    proof (cases "pixelFormat (cur_data_format s) = ?code")
      case True
      with len r False show ?thesis by (simp add: requestPixelFormat_def)
    next
      case ne: False
      with len r False have
        "requestDataFormat k ((cur_data_format s)\<lparr>pixelFormat := ?code\<rparr>) s = (False, s3)"
        by (simp add: requestPixelFormat_def Let_def)
      from requestDataFormat_rejected [OF this] ne show ?thesis by simp
    qed
  qed
  with len show "syscalls (snd (requestPixelFormat char_signed k fourcc s3)) =
      syscalls s3 @ [VIDIOC_S_FMT ?code (width (cur_data_format s3)) (height (cur_data_format s3))]"
    by (simp add: requestPixelFormat_def requestDataFormat_calls Let_def)
qed

lemma requestImageSize_again:
  "requestImageSize k [w, h] s = (r, s4) \<and>
    (\<not> r \<or> ucast (width (cur_data_format s4)) \<noteq> w \<or> ucast (height (cur_data_format s4)) \<noteq> h)
      \<longrightarrow> syscalls (snd (requestImageSize k [w, h] s4)) =
            syscalls s4 @ [VIDIOC_S_FMT (pixelFormat (cur_data_format s4)) (ucast w) (ucast h)]"
proof (intro impI, elim conjE)
  let ?same = "\<lambda>t. ucast (width (cur_data_format t)) = w \<and> ucast (height (cur_data_format t)) = h"
  assume r: "requestImageSize k [w, h] s = (r, s4)"
    and d: "\<not> r \<or> ucast (width (cur_data_format s4)) \<noteq> w \<or>
            ucast (height (cur_data_format s4)) \<noteq> h"
  have m: "\<not> ?same s4"
  proof (cases r)
    case True
    with d show ?thesis by auto
  next
    case False
    show ?thesis
    proof (cases "?same s")
      case True
      with r False show ?thesis by (simp add: requestImageSize_def)
    next
      case ne: False
      with r False have
        "requestDataFormat k
           ((cur_data_format s)\<lparr>width := ucast w, height := ucast h\<rparr>) s = (False, s4)"
        by (auto simp: requestImageSize_def Let_def)
      from requestDataFormat_rejected [OF this] ne show ?thesis by simp
    qed
  qed
  then show "syscalls (snd (requestImageSize k [w, h] s4)) =
      syscalls s4 @ [VIDIOC_S_FMT (pixelFormat (cur_data_format s4)) (ucast w) (ucast h)]"
    by (auto simp: requestImageSize_def requestDataFormat_calls Let_def)
qed

text \<open>
  C6, as the code has it. A call with the pixel format code, or with the size, that is
  currently stored returns true and leaves the object, and so the list of calls, as it
  was. Two calls in a row with the same argument make at most one request when the first
  returns true and leaves the stored value equal to the one asked for. When the first
  leaves the stored value different from the one asked for (the device has put another
  in its place), or returns false after a request (the device has rejected it), the
  second call issues the request again.
\<close>

theorem negotiation_fast_path:
  "(length fourcc = 4 \<and>
    pixelFormat (cur_data_format s) =
      v4l2_fourcc char_signed (fourcc ! 0) (fourcc ! 1) (fourcc ! 2) (fourcc ! 3)
      \<longrightarrow> requestPixelFormat char_signed k fourcc s = (True, s)) \<and>
   (ucast (width (cur_data_format s)) = w \<and> ucast (height (cur_data_format s)) = h
      \<longrightarrow> requestImageSize k [w, h] s = (True, s)) \<and>
   (requestPixelFormat char_signed k fourcc s = (True, s1) \<and>
    pixelFormat (cur_data_format s1) =
      v4l2_fourcc char_signed (fourcc ! 0) (fourcc ! 1) (fourcc ! 2) (fourcc ! 3)
      \<longrightarrow> requestPixelFormat char_signed k fourcc s1 = (True, s1) \<and>
          (\<exists>cs. syscalls s1 = syscalls s @ cs \<and> length cs \<le> 1)) \<and>
   (requestImageSize k [w, h] s = (True, s2) \<and>
    ucast (width (cur_data_format s2)) = w \<and> ucast (height (cur_data_format s2)) = h
      \<longrightarrow> requestImageSize k [w, h] s2 = (True, s2) \<and>
          (\<exists>cs. syscalls s2 = syscalls s @ cs \<and> length cs \<le> 1)) \<and>
   (length fourcc = 4 \<and> requestPixelFormat char_signed k fourcc s = (r, s3) \<and>
    (\<not> r \<or> pixelFormat (cur_data_format s3) \<noteq>
       v4l2_fourcc char_signed (fourcc ! 0) (fourcc ! 1) (fourcc ! 2) (fourcc ! 3))
      \<longrightarrow> syscalls (snd (requestPixelFormat char_signed k fourcc s3)) =
            syscalls s3 @
              [VIDIOC_S_FMT
                 (v4l2_fourcc char_signed (fourcc ! 0) (fourcc ! 1) (fourcc ! 2) (fourcc ! 3))
                 (width (cur_data_format s3)) (height (cur_data_format s3))]) \<and>
   (requestImageSize k [w, h] s = (r, s4) \<and>
    (\<not> r \<or> ucast (width (cur_data_format s4)) \<noteq> w \<or> ucast (height (cur_data_format s4)) \<noteq> h)
      \<longrightarrow> syscalls (snd (requestImageSize k [w, h] s4)) =
            syscalls s4 @ [VIDIOC_S_FMT (pixelFormat (cur_data_format s4)) (ucast w) (ucast h)])"
  by (intro conjI requestPixelFormat_same requestImageSize_same requestPixelFormat_twice
      requestImageSize_twice requestPixelFormat_again requestImageSize_again)

text \<open>
  C6 as stated fails: the toy camera answers every size request with its own 2 by 2, so
  the second of two identical calls for 640 by 480 finds the stored size different
  again and issues a second \<^verbatim>\<open>VIDIOC_S_FMT\<close>.
\<close>

theorem negotiation_twice_two_requests:
  "requestImageSize toy_cam [640, 480] toy_opened =
     (True, toy_opened\<lparr>syscalls := [VIDIOC_S_FMT V4L2_PIX_FMT_YUYV 640 480]\<rparr>) \<and>
   requestImageSize toy_cam [640, 480]
       (toy_opened\<lparr>syscalls := [VIDIOC_S_FMT V4L2_PIX_FMT_YUYV 640 480]\<rparr>) =
     (True, toy_opened\<lparr>syscalls := [VIDIOC_S_FMT V4L2_PIX_FMT_YUYV 640 480,
                                      VIDIOC_S_FMT V4L2_PIX_FMT_YUYV 640 480]\<rparr>)"
  by (simp add: requestImageSize_def requestDataFormat_def toy_cam_def toy_opened_def toy_pix_def
        PixelFormat_of_def issue_def Let_def)

text \<open>
  The six cases on the toy camera: the stored code and the stored size asked for again;
  a code and a size that the granting device stores, asked for twice; and a code and a
  size that the rejecting device refuses, asked for twice.
\<close>

theorem negotiation_fast_path_witness:
  "requestPixelFormat True toy_cam ''YUYV'' toy_opened = (True, toy_opened) \<and>
   requestImageSize toy_cam [2, 2] toy_opened = (True, toy_opened) \<and>
   requestPixelFormat True toy_honours ''MJPG'' toy_opened = (True, toy_mjpg) \<and>
   requestPixelFormat True toy_honours ''MJPG'' toy_mjpg = (True, toy_mjpg) \<and>
   syscalls toy_mjpg = [VIDIOC_S_FMT 0x47504A4D 2 2] \<and>
   requestImageSize toy_honours [4, 4] toy_opened = (True, toy_4x4) \<and>
   requestImageSize toy_honours [4, 4] toy_4x4 = (True, toy_4x4) \<and>
   syscalls toy_4x4 = [VIDIOC_S_FMT V4L2_PIX_FMT_YUYV 4 4] \<and>
   requestPixelFormat True toy_rejects ''MJPG'' toy_opened =
     (False, toy_opened\<lparr>syscalls := [VIDIOC_S_FMT 0x47504A4D 2 2]\<rparr>) \<and>
   syscalls (snd (requestPixelFormat True toy_rejects ''MJPG''
                    (toy_opened\<lparr>syscalls := [VIDIOC_S_FMT 0x47504A4D 2 2]\<rparr>))) =
     [VIDIOC_S_FMT 0x47504A4D 2 2, VIDIOC_S_FMT 0x47504A4D 2 2] \<and>
   requestImageSize toy_rejects [4, 4] toy_opened =
     (False, toy_opened\<lparr>syscalls := [VIDIOC_S_FMT V4L2_PIX_FMT_YUYV 4 4]\<rparr>) \<and>
   syscalls (snd (requestImageSize toy_rejects [4, 4]
                    (toy_opened\<lparr>syscalls := [VIDIOC_S_FMT V4L2_PIX_FMT_YUYV 4 4]\<rparr>))) =
     [VIDIOC_S_FMT V4L2_PIX_FMT_YUYV 4 4, VIDIOC_S_FMT V4L2_PIX_FMT_YUYV 4 4]"
proof -
  have p: "requestPixelFormat True toy_honours ''MJPG'' toy_opened = (True, toy_mjpg)"
    by (simp add: requestPixelFormat_def requestDataFormat_def toy_honours_def toy_cam_def
        toy_mjpg_def toy_opened_def toy_pix_def PixelFormat_of_def issue_def Let_def
        fourcc_MJPG PIX_FMT_YUYV)
  have r: "requestImageSize toy_honours [4, 4] toy_opened = (True, toy_4x4)"
    by (simp add: requestImageSize_def requestDataFormat_def toy_honours_def toy_cam_def
        toy_4x4_def toy_opened_def toy_pix_def PixelFormat_of_def issue_def Let_def)
  have pr: "requestPixelFormat True toy_rejects ''MJPG'' toy_opened =
     (False, toy_opened\<lparr>syscalls := [VIDIOC_S_FMT 0x47504A4D 2 2]\<rparr>)"
    by (simp add: requestPixelFormat_def requestDataFormat_def toy_rejects_def toy_cam_def
        toy_opened_def toy_pix_def PixelFormat_of_def issue_def Let_def fourcc_MJPG PIX_FMT_YUYV)
  have rr: "requestImageSize toy_rejects [4, 4] toy_opened =
     (False, toy_opened\<lparr>syscalls := [VIDIOC_S_FMT V4L2_PIX_FMT_YUYV 4 4]\<rparr>)"
    by (simp add: requestImageSize_def requestDataFormat_def toy_rejects_def toy_cam_def
        toy_opened_def toy_pix_def PixelFormat_of_def issue_def Let_def)
  from negotiation_fast_path [of "''YUYV''" toy_opened True toy_cam 2 2]
    negotiation_fast_path [of "''MJPG''" toy_opened True toy_honours 4 4 toy_mjpg toy_4x4]
    negotiation_fast_path [of "''MJPG''" toy_opened True toy_rejects 4 4 _ _ False
      "toy_opened\<lparr>syscalls := [VIDIOC_S_FMT 0x47504A4D 2 2]\<rparr>"
      "toy_opened\<lparr>syscalls := [VIDIOC_S_FMT V4L2_PIX_FMT_YUYV 4 4]\<rparr>"]
    p r pr rr
  show ?thesis
    by (simp add: toy_mjpg_def toy_4x4_def toy_opened_def toy_pix_def PixelFormat_of_def
        fourcc_MJPG fourcc_YUYV PIX_FMT_YUYV)
qed

section \<open>Properties of \<^verbatim>\<open>setControlValue\<close>\<close>

text \<open>
  The code after the query does what it is meant to: with a control found by the
  lookup, the value goes to the device as given, whatever minimum and maximum the
  control carries, and the result is the device's answer.
\<close>

lemma set_request_forwards:
  "set_request k j v (Some c) s =
     Returns (k_s_ctrl k (syscalls s) j v, s\<lparr>syscalls := syscalls s @ [VIDIOC_S_CTRL j v]\<rparr>)"
  by (simp add: set_request_def issue_def)

text \<open>
  But no call reaches it with defined behaviour: whenever \<^verbatim>\<open>setControlValue\<close> returns,
  the query has failed, the result is false and no set request was issued.
\<close>

lemma setControlValue_returns:
  assumes "setControlValue k i v s = Returns r"
  shows "k_queryctrl k (syscalls s) i = None \<and>
         r = (False, s\<lparr>syscalls := syscalls s @ [VIDIOC_QUERYCTRL i]\<rparr>)"
  using assms
  by (auto simp: setControlValue_def sizeof_v4l2_control_def sizeof_v4l2_queryctrl_def issue_def
      Let_def split: option.splits)

text \<open>
  C8. On the toy camera, which answers the query for its brightness control,
  \<^verbatim>\<open>setControlValue(0x00980900, 300)\<close> does not forward the value: the answer to the query,
  68 bytes, is written over the 8 bytes of \<^verbatim>\<open>ctrl\<close> before line 254 is reached.
\<close>

theorem setControlValue_overruns_ctrl:
  "k_queryctrl toy_cam (syscalls toy_opened) 0x00980900 = Some toy_brightness \<and>
   sizeof_v4l2_control = 8 \<and> sizeof_v4l2_queryctrl = 68 \<and>
   setControlValue toy_cam 0x00980900 300 toy_opened = Undefined WriteBeyondObject"
  by (simp add: setControlValue_def sizeof_v4l2_control_def sizeof_v4l2_queryctrl_def
      toy_cam_def toy_opened_def)

text \<open>
  C10. With an id that is not among the enumerated controls, \<^verbatim>\<open>setControlValue\<close>
  dereferences the end iterator when the query fails, and the code of lines 254--262
  dereferences it when the set request fails. With an id among them neither error
  branch does: the first returns false, the second returns the device's answer. So
  \<^verbatim>\<open>setControlValue\<close> returns only for an id among the enumerated controls.
\<close>

theorem setControlValue_end_iterator:
  "(i \<notin> ctrl_id ` set (controls s) \<and> k_queryctrl k (syscalls s) i = None \<longrightarrow>
      setControlValue k i v s = Undefined EndIteratorDereference) \<and>
   (i \<notin> ctrl_id ` set (controls s) \<and> \<not> k_s_ctrl k (syscalls s1) j v \<longrightarrow>
      set_request k j v (find (\<lambda>c. ctrl_id c = i) (controls s)) s1 =
        Undefined EndIteratorDereference) \<and>
   (i \<in> ctrl_id ` set (controls s) \<and> k_queryctrl k (syscalls s) i = None \<longrightarrow>
      setControlValue k i v s = Returns (False, s\<lparr>syscalls := syscalls s @ [VIDIOC_QUERYCTRL i]\<rparr>)) \<and>
   (i \<in> ctrl_id ` set (controls s) \<longrightarrow>
      set_request k j v (find (\<lambda>c. ctrl_id c = i) (controls s)) s1 =
        Returns (k_s_ctrl k (syscalls s1) j v,
                 s1\<lparr>syscalls := syscalls s1 @ [VIDIOC_S_CTRL j v]\<rparr>)) \<and>
   (setControlValue k i v s = Returns r \<longrightarrow> i \<in> ctrl_id ` set (controls s))"
proof (cases "find (\<lambda>c. ctrl_id c = i) (controls s)")
  case None
  then have "i \<notin> ctrl_id ` set (controls s)"
    by (auto simp: find_None_iff)
  with None show ?thesis
    by (auto simp: setControlValue_def set_request_def sizeof_v4l2_control_def
        sizeof_v4l2_queryctrl_def issue_def Let_def split: option.splits)
next
  case (Some c)
  then have "i \<in> ctrl_id ` set (controls s)"
    by (auto simp: find_Some_iff)
  with Some show ?thesis
    by (auto simp: setControlValue_def set_request_def sizeof_v4l2_control_def
        sizeof_v4l2_queryctrl_def issue_def Let_def split: option.splits)
qed

text \<open>
  On the toy camera: an id that is not enumerated and that the device does not know;
  the set request for 300, which the device rejects, with and without the control
  enumerated; and the enumerated control on a device that fails the query.
\<close>

theorem setControlValue_end_iterator_witness:
  "setControlValue toy_cam 0x00980901 1 toy_opened = Undefined EndIteratorDereference \<and>
   set_request toy_cam 0x00980900 300
       (find (\<lambda>c. ctrl_id c = 0x00980900) (controls (toy_opened\<lparr>controls := []\<rparr>)))
       (toy_opened\<lparr>syscalls := [VIDIOC_QUERYCTRL 0x00980900]\<rparr>) =
     Undefined EndIteratorDereference \<and>
   setControlValue (toy_cam\<lparr>k_queryctrl := \<lambda>cs i. None\<rparr>) 0x00980900 300 toy_opened =
     Returns (False, toy_opened\<lparr>syscalls := [VIDIOC_QUERYCTRL 0x00980900]\<rparr>) \<and>
   set_request toy_cam 0x00980900 300
       (find (\<lambda>c. ctrl_id c = 0x00980900) (controls toy_opened))
       (toy_opened\<lparr>syscalls := [VIDIOC_QUERYCTRL 0x00980900]\<rparr>) =
     Returns (False, toy_opened\<lparr>syscalls :=
                [VIDIOC_QUERYCTRL 0x00980900, VIDIOC_S_CTRL 0x00980900 300]\<rparr>) \<and>
   0x00980900 \<in> ctrl_id ` set (controls toy_opened)"
  using setControlValue_end_iterator
      [of "0x00980901" toy_opened toy_cam 1]
    setControlValue_end_iterator
      [of "0x00980900" "toy_opened\<lparr>controls := []\<rparr>" toy_cam 300
        "toy_opened\<lparr>syscalls := [VIDIOC_QUERYCTRL 0x00980900]\<rparr>" "0x00980900"]
    setControlValue_end_iterator
      [of "0x00980900" toy_opened "toy_cam\<lparr>k_queryctrl := \<lambda>cs i. None\<rparr>" 300
        "toy_opened\<lparr>syscalls := [VIDIOC_QUERYCTRL 0x00980900]\<rparr>" "0x00980900"
        "(False, toy_opened\<lparr>syscalls := [VIDIOC_QUERYCTRL 0x00980900]\<rparr>)"]
    setControlValue_end_iterator
      [of "0x00980900" toy_opened toy_cam 300
        "toy_opened\<lparr>syscalls := [VIDIOC_QUERYCTRL 0x00980900]\<rparr>" "0x00980900"]
  by (simp add: toy_cam_def toy_opened_def toy_brightness_def V4L2_CID_USER_CLASS_def
      V4L2_CTRL_CLASS_USER_def V4L2_CTRL_FLAG_NEXT_CTRL_def)

section \<open>Properties of \<^verbatim>\<open>listControls\<close>\<close>

lemma listControls_loop_disabled:
  "i = (V4L2_CID_USER_CLASS OR V4L2_CTRL_FLAG_NEXT_CTRL) \<or> i = 0x00980900 \<Longrightarrow>
   listControls_loop n toy_disabled i s = OutOfFuel"
proof (induction n arbitrary: i s)
  case 0
  then show ?case by simp
next
  case (Suc n)
  have q: "k_queryctrl toy_disabled (syscalls s) i =
      Some (toy_brightness\<lparr>qc_flags := V4L2_CTRL_FLAG_DISABLED\<rparr>)"
    using Suc.prems by (auto simp: toy_disabled_def)
  have "listControls_loop (Suc n) toy_disabled i s =
      listControls_loop n toy_disabled 0x00980900 (issue (VIDIOC_QUERYCTRL i) s)"
    by (simp add: q toy_brightness_def V4L2_CTRL_FLAG_DISABLED_def)
  also have "\<dots> = OutOfFuel"
    by (rule Suc.IH) simp
  finally show ?case .
qed

text \<open>
  C4. On the toy camera with its control disabled the query for the next control after
  it fails, so the enumeration has an end; but \<^verbatim>\<open>listControls()\<close> does not return
  within any number of queries: after the \<^verbatim>\<open>continue\<close> it asks for the same id again.
\<close>

theorem listControls_disabled_never_returns:
  "k_queryctrl toy_disabled cs (0x00980900 OR V4L2_CTRL_FLAG_NEXT_CTRL) = None \<and>
   listControls n toy_disabled s = OutOfFuel"
  by (simp add: listControls_def listControls_loop_disabled)
    (simp add: toy_disabled_def V4L2_CTRL_FLAG_NEXT_CTRL_def V4L2_CID_USER_CLASS_def V4L2_CTRL_CLASS_USER_def)

text \<open>
  What does hold of \<^verbatim>\<open>listControls()\<close>: on the toy camera, whose control is enabled, it
  returns after two queries; and whenever it returns, every control it lists was built
  from an answer of the device that is not flagged as disabled.
\<close>

lemma toy_listControls:
  "listControls (Suc (Suc 0)) toy_cam (toy_opened\<lparr>controls := cs0\<rparr>) =
     Returns (toy_opened\<lparr>syscalls := [VIDIOC_QUERYCTRL 0x80980001, VIDIOC_QUERYCTRL 0x80980900]\<rparr>)"
  by (simp add: listControls_def toy_cam_def toy_opened_def toy_brightness_def
      V4L2_CTRL_FLAG_NEXT_CTRL_def V4L2_CID_USER_CLASS_def V4L2_CTRL_CLASS_USER_def V4L2_CTRL_FLAG_DISABLED_def
      ControlType_MENU_def Control_of_def issue_def)

lemma query_menu_controls:
  "query_menu k c i mx items s = Returns (items', s') \<Longrightarrow> controls s' = controls s"
proof (induction k c i mx items s rule: query_menu.induct)
  case (1 k c i mx items s)
  show ?case
  proof (cases "i \<le> mx \<and> i \<noteq> 2147483647")
    case True
    with "1.prems" have "query_menu k c (i + 1) mx
                (case k_querymenu k (syscalls s) c (word_of_int i) of
                   None \<Rightarrow> items
                 | Some label \<Rightarrow> AList.update i label items)
                (issue (VIDIOC_QUERYMENU c (word_of_int i)) s) = Returns (items', s')"
      by (simp add: query_menu.simps [of k c i])
    with "1.IH" True have "controls s' = controls (issue (VIDIOC_QUERYMENU c (word_of_int i)) s)"
      by blast
    then show ?thesis by (simp add: issue_def)
  next
    case False
    with "1.prems" show ?thesis
      by (auto simp add: query_menu.simps [of k c i] split: if_splits)
  qed
qed

lemma listControls_loop_invariant:
  assumes "listControls_loop n k i s = Returns s'"
    and "\<forall>c\<in>set (controls s). P c"
    and "\<And>cs j q items. k_queryctrl k cs j = Some q \<Longrightarrow>
           qc_flags q AND V4L2_CTRL_FLAG_DISABLED = 0 \<Longrightarrow> P (Control_of q items)"
  shows "\<forall>c\<in>set (controls s'). P c"
  using assms(1,2)
proof (induction n arbitrary: i s)
  case 0
  then show ?case by simp
next
  case (Suc n)
  show ?case
  proof (cases "k_queryctrl k (syscalls s) i")
    case None
    with Suc.prems show ?thesis by (auto simp: issue_def)
  next
    case (Some q)
    show ?thesis
    proof (cases "qc_flags q AND V4L2_CTRL_FLAG_DISABLED \<noteq> 0")
      case True
      with Some Suc.prems have
        "listControls_loop n k (qc_id q) (issue (VIDIOC_QUERYCTRL i) s) = Returns s'"
        by simp
      from Suc.IH [OF this] Suc.prems(2) show ?thesis by (simp add: issue_def)
    next
      case False
      then have en: "P (Control_of q items)" for items
        using Some assms(3) by auto
      show ?thesis
      proof (cases "qc_type q = ControlType_MENU")
        case True
        with Some False Suc.prems(1) obtain items s2 where
          m: "query_menu k (qc_id q) (sint (qc_minimum q)) (sint (qc_maximum q)) []
                (issue (VIDIOC_QUERYCTRL i) s) = Returns (items, s2)" and
          l: "listControls_loop n k (qc_id q OR V4L2_CTRL_FLAG_NEXT_CTRL)
                (s2\<lparr>controls := controls s2 @ [Control_of q items]\<rparr>) = Returns s'"
          by (auto split: outcome.splits)
        from query_menu_controls [OF m] have "controls s2 = controls s" by (simp add: issue_def)
        with Suc.IH [OF l] Suc.prems(2) en show ?thesis by auto
      next
        case notmenu: False
        with Some False Suc.prems(1) have
          "listControls_loop n k (qc_id q OR V4L2_CTRL_FLAG_NEXT_CTRL)
             ((issue (VIDIOC_QUERYCTRL i) s)\<lparr>controls := controls s @ [Control_of q []]\<rparr>) =
           Returns s'"
          by (simp add: issue_def)
        from Suc.IH [OF this] Suc.prems(2) en show ?thesis by auto
      qed
    qed
  qed
qed

lemma listControls_lists_enabled:
  assumes "listControls n k s = Returns s'" and "c \<in> set (controls s')"
  shows "\<exists>cs j q items. k_queryctrl k cs j = Some q \<and>
           qc_flags q AND V4L2_CTRL_FLAG_DISABLED = 0 \<and> c = Control_of q items"
proof -
  have "\<forall>c\<in>set (controls s').
          \<exists>cs j q items. k_queryctrl k cs j = Some q \<and>
            qc_flags q AND V4L2_CTRL_FLAG_DISABLED = 0 \<and> c = Control_of q items"
    using assms(1) unfolding listControls_def
    by (rule listControls_loop_invariant) auto
  with assms(2) show ?thesis by blast
qed

section \<open>Properties of \<^verbatim>\<open>open\<close>\<close>

text \<open>
  C5, as the code has it. \<^verbatim>\<open>open()\<close> returns false when the path cannot be opened,
  having made only that call. When the path can be opened it never returns false,
  whatever the capability query answers, and it returns true as soon as its two
  enumeration loops have ended.
\<close>

theorem open_device_result:
  "(k_open k (syscalls s) (device s) < 0 \<longrightarrow>
      open_device n k s =
        Returns (False, s\<lparr>syscalls := syscalls s @ [SysOpen (device s)],
                          fd := k_open k (syscalls s) (device s)\<rparr>)) \<and>
   (0 \<le> k_open k (syscalls s) (device s) \<longrightarrow> open_device n k s \<noteq> Returns (False, s')) \<and>
   (0 \<le> k_open k (syscalls s) (device s) \<and>
    listImageFormats n k
      (query_device k (s\<lparr>syscalls := syscalls s @ [SysOpen (device s)],
                          fd := k_open k (syscalls s) (device s)\<rparr>)) = Returns s4 \<and>
    listControls n k s4 = Returns s5 \<longrightarrow>
      open_device n k s = Returns (True, log_controls k (controls s5) s5))"
  by (auto simp: open_device_def issue_def Let_def split: outcome.splits)

text \<open>
  C5 as stated fails: with a capability query that fails, \<^verbatim>\<open>open()\<close> still returns true.
\<close>

theorem open_ignores_querycap:
  "k_querycap toy_no_querycap [SysOpen ''/dev/video0''] = None \<and>
   open_device (Suc (Suc 0)) toy_no_querycap (toy_new ''/dev/video0'') =
     Returns (True,
       toy_opened\<lparr>capabilities := capabilities (toy_new ''/dev/video0''),
         syscalls := [SysOpen ''/dev/video0'', VIDIOC_QUERYCAP, VIDIOC_G_FMT, VIDIOC_ENUM_FMT 0,
                      VIDIOC_ENUM_FMT 1, VIDIOC_QUERYCTRL 0x80980001, VIDIOC_QUERYCTRL 0x80980900,
                      VIDIOC_G_CTRL 0x00980900]\<rparr>)"
  by (simp add: open_device_def query_device_def listImageFormats_def listControls_def
      toy_no_querycap_def toy_new_def V4l2CameraDevice_new_def stale_cap_def getControlValue_def ImageFormat_of_def
      toy_cam_def toy_opened_def toy_brightness_def
      V4L2_CTRL_FLAG_NEXT_CTRL_def V4L2_CID_USER_CLASS_def V4L2_CTRL_CLASS_USER_def V4L2_CTRL_FLAG_DISABLED_def
      ControlType_MENU_def Control_of_def issue_def Let_def)

text \<open>
  The three cases at work: a path that does not open; the toy camera; and the toy
  camera with both queries of lines 55 and 79 failing, where the format is all zeros.
\<close>

theorem open_device_result_witness:
  "open_device (Suc (Suc 0)) (toy_cam\<lparr>k_open := \<lambda>cs p. - 1\<rparr>)
       (toy_new ''/dev/video9'') =
     Returns (False, (toy_new ''/dev/video9'')
                       \<lparr>fd := - 1, syscalls := [SysOpen ''/dev/video9'']\<rparr>) \<and>
   open_device (Suc (Suc 0)) toy_cam (toy_new ''/dev/video0'') \<noteq>
     Returns (False, toy_new ''/dev/video0'') \<and>
   open_device (Suc (Suc 0)) (toy_cam\<lparr>k_querycap := \<lambda>cs. None, k_g_fmt := \<lambda>cs. None\<rparr>)
       (toy_new ''/dev/video0'') =
     Returns (True,
       toy_opened\<lparr>capabilities := capabilities (toy_new ''/dev/video0''),
         cur_data_format := PixelFormat_of zero_pix,
         syscalls := [SysOpen ''/dev/video0'', VIDIOC_QUERYCAP, VIDIOC_G_FMT, VIDIOC_ENUM_FMT 0,
                      VIDIOC_ENUM_FMT 1, VIDIOC_QUERYCTRL 0x80980001, VIDIOC_QUERYCTRL 0x80980900,
                      VIDIOC_G_CTRL 0x00980900]\<rparr>)"
  using open_device_result
      [of "toy_cam\<lparr>k_open := \<lambda>cs p. - 1\<rparr>" "toy_new ''/dev/video9''" "Suc (Suc 0)"]
    open_device_result
      [of toy_cam "toy_new ''/dev/video0''" "Suc (Suc 0)"
        "toy_new ''/dev/video0''"]
    open_device_result
      [of "toy_cam\<lparr>k_querycap := \<lambda>cs. None, k_g_fmt := \<lambda>cs. None\<rparr>"
        "toy_new ''/dev/video0''" "Suc (Suc 0)" _
        "toy_opened\<lparr>capabilities := capabilities (toy_new ''/dev/video0''),
           cur_data_format := PixelFormat_of zero_pix, controls := [],
           syscalls := [SysOpen ''/dev/video0'', VIDIOC_QUERYCAP, VIDIOC_G_FMT, VIDIOC_ENUM_FMT 0,
                        VIDIOC_ENUM_FMT 1]\<rparr>"
        "toy_opened\<lparr>capabilities := capabilities (toy_new ''/dev/video0''),
           cur_data_format := PixelFormat_of zero_pix,
           syscalls := [SysOpen ''/dev/video0'', VIDIOC_QUERYCAP, VIDIOC_G_FMT, VIDIOC_ENUM_FMT 0,
                        VIDIOC_ENUM_FMT 1, VIDIOC_QUERYCTRL 0x80980001,
                        VIDIOC_QUERYCTRL 0x80980900]\<rparr>"]
  by (simp add: query_device_def listImageFormats_def listControls_def
      toy_new_def V4l2CameraDevice_new_def stale_cap_def getControlValue_def ImageFormat_of_def
      toy_cam_def toy_opened_def toy_brightness_def
      V4L2_CTRL_FLAG_NEXT_CTRL_def V4L2_CID_USER_CLASS_def V4L2_CTRL_CLASS_USER_def V4L2_CTRL_FLAG_DISABLED_def
      ControlType_MENU_def Control_of_def issue_def Let_def)

end
